theory Spec2Isabelle
  imports Complex_Main
begin

section \<open>Python values used by the sentiment analyser\<close>

text \<open>
  A Python \<open>str\<close> is a sequence of Unicode code points, so it is modelled as a list of
  natural numbers. \<open>str_lit\<close> turns an ASCII literal of the source into that form.
  Scores and lexicon weights are Python integers (the lexicon loader stores the weight 1),
  counters are natural numbers, and the results of Python's true division \<open>/\<close> are exact
  rationals.
\<close>

type_synonym pystr = "nat list"

definition str_lit :: "string \<Rightarrow> pystr" where
  "str_lit s = map of_char s"

text \<open>
  The exceptions that the modelled code paths can raise. \<open>KeyboardInterrupt\<close> and
  \<open>SystemExit\<close> derive from \<open>BaseException\<close> only; every other one derives from
  \<open>Exception\<close>, which is what \<open>except Exception\<close> catches.
\<close>

datatype py_error =
    TokenizerError
  | MorphologyError
  | AttributeError
  | ZeroDivisionError
  | OSError
  | KeyboardInterrupt
  | SystemExit

fun is_Exception :: "py_error \<Rightarrow> bool" where
  "is_Exception KeyboardInterrupt = False"
| "is_Exception SystemExit = False"
| "is_Exception e = True"

text \<open>\<open>needle in haystack\<close> on strings: the test for a contiguous occurrence.\<close>

fun startswith :: "pystr \<Rightarrow> pystr \<Rightarrow> bool" where
  "startswith s [] = True"
| "startswith [] (p # ps) = False"
| "startswith (c # cs) (p # ps) = (c = p \<and> startswith cs ps)"

fun str_contains :: "pystr \<Rightarrow> pystr \<Rightarrow> bool" where
  "str_contains needle [] = (needle = [])"
| "str_contains needle (c # cs) = (startswith (c # cs) needle \<or> str_contains needle cs)"

text \<open>\<open>" ".join(tokens)\<close>\<close>

fun join_space :: "pystr list \<Rightarrow> pystr" where
  "join_space [] = []"
| "join_space [t] = t"
| "join_space (t # u # ts) = t @ [32] @ join_space (u # ts)"

section \<open>External collaborators\<close>

text \<open>
  The Python runtime and the Zemberek tokenizer are not part of the repository. They are
  parameters of the model: \<open>str_lower\<close> is \<open>str.lower\<close>, \<open>is_word\<close> and \<open>is_space\<close> are the
  character classes \<open>\w\<close> and \<open>\s\<close> of \<open>re\<close> (the latter is also what \<open>str.strip\<close> removes),
  and \<open>tokenize\<close> is \<open>TurkishTokenizer.DEFAULT.tokenize\<close> followed by reading
  \<open>content\<close> of every token; it may raise. \<open>print_error e\<close> is the statement
  \<open>print(f"Error during sentiment analysis: {e}")\<close> of line 105 for the caught exception
  \<open>e\<close>: \<open>None\<close> when it returns, \<open>Some e'\<close> when formatting the message or writing to
  the standard output raises \<open>e'\<close>. What is written is not part of the model.
\<close>

record runtime =
  str_lower :: "pystr \<Rightarrow> pystr"
  is_word :: "nat \<Rightarrow> bool"
  is_space :: "nat \<Rightarrow> bool"
  tokenize :: "pystr \<Rightarrow> py_error + pystr list"
  print_error :: "py_error \<Rightarrow> py_error option"

text \<open>
  One element of \<open>best_analysis()\<close>. \<open>item\<close> is \<open>None\<close> for a malformed analysis on which
  the attribute access \<open>analysis.item\<close> raises; otherwise it carries \<open>item.root\<close> and
  \<open>item.normalized_form\<close>, each of which may be Python's \<open>None\<close>. \<open>as_text\<close> is
  \<open>str(analysis)\<close>.
\<close>

record dict_item =
  root :: "pystr option"
  normalized_form :: "pystr option"

record analysis =
  item :: "dict_item option"
  as_text :: pystr

text \<open>
  The \<open>morphology\<close> argument, as the code uses it:
  \<open>morphology.analyze_and_disambiguate(text).best_analysis()\<close>, which may raise.
\<close>

type_synonym morphology = "pystr \<Rightarrow> py_error + analysis list"

type_synonym lexicon = "pystr \<rightharpoonup> int"

section \<open>data_preprocessing.preprocess_text\<close>

definition preprocess_text :: "runtime \<Rightarrow> pystr \<Rightarrow> pystr" where
  "preprocess_text rt text =
     filter (\<lambda>c. is_word rt c \<or> is_space rt c) (str_lower rt text)"

section \<open>sentiment_analysis.analyze_sentiment\<close>

datatype sentiment_label = Positive | Negative | Neutral | Error

record predicate_info =
  pi_root :: "pystr option"
  pi_is_negative :: bool
  pi_full_analysis :: pystr

record predicate_feature =
  pf_root :: "pystr option"
  pf_is_negative :: bool
  pf_analysis :: pystr

text \<open>
  \<open>found_features\<close> is a \<open>defaultdict(list)\<close> that only ever receives the keys
  \<open>predicate\<close>, \<open>positive_words\<close> and \<open>negative_words\<close>; a field is \<open>None\<close> while its key
  is absent.
\<close>

record features =
  predicate :: "predicate_feature list option"
  positive_words :: "pystr list option"
  negative_words :: "pystr list option"

definition no_features :: features where
  "no_features = \<lparr>predicate = None, positive_words = None, negative_words = None\<rparr>"

text \<open>\<open>d[key].append(x)\<close> on a \<open>defaultdict(list)\<close>.\<close>

fun dd_append :: "'a list option \<Rightarrow> 'a \<Rightarrow> 'a list option" where
  "dd_append None x = Some [x]"
| "dd_append (Some xs) x = Some (xs @ [x])"

record sentiment_result =
  sentiment :: sentiment_label
  score :: int
  confidence :: rat
  feats :: features
  predicate_analysis :: "predicate_info option"

text \<open>
  The loop over \<open>reversed(results)\<close> (lines 46-58). The state is
  \<open>(predicate_multiplier, predicate_info)\<close>; the \<open>break\<close> ends the recursion.
\<close>

fun predicate_scan ::
  "analysis list \<Rightarrow> int \<times> predicate_info option \<Rightarrow> py_error + (int \<times> predicate_info option)"
where
  "predicate_scan [] st = Inr st"
| "predicate_scan (a # rest) (predicate_multiplier, info) =
     (let morphemes = as_text a in
      if str_contains (str_lit ''Verb'') morphemes then
        (let has_negation = str_contains (str_lit ''Neg'') morphemes in
         case item a of
           None \<Rightarrow> Inl AttributeError
         | Some it \<Rightarrow>
             Inr (if has_negation then - 1 * predicate_multiplier else predicate_multiplier,
                  Some \<lparr>pi_root = root it, pi_is_negative = has_negation,
                        pi_full_analysis = as_text a\<rparr>))
      else predicate_scan rest (predicate_multiplier, info))"

text \<open>Python's \<open>x or y\<close> on values that are \<open>None\<close> or a string.\<close>

definition py_or :: "pystr option \<Rightarrow> pystr option \<Rightarrow> pystr option" where
  "py_or x y = (case x of None \<Rightarrow> y | Some s \<Rightarrow> (if s = [] then y else Some s))"

text \<open>Lines 74-75: the root that is looked up in the lexicons.\<close>

definition lexical_root :: "runtime \<Rightarrow> dict_item \<Rightarrow> pystr" where
  "lexical_root rt it =
     (case py_or (root it) (normalized_form it) of
        None \<Rightarrow> []
      | Some r \<Rightarrow> (if r = [] then [] else str_lower rt r))"

text \<open>
  One iteration of the loop over \<open>results\<close> (lines 73-84); the state is
  \<open>(score, confidence, found_features)\<close>.
\<close>

definition score_step ::
  "runtime \<Rightarrow> lexicon \<Rightarrow> lexicon \<Rightarrow> int \<Rightarrow> analysis \<Rightarrow> int \<times> nat \<times> features \<Rightarrow>
   py_error + (int \<times> nat \<times> features)"
where
  "score_step rt positive_dict negative_dict predicate_multiplier result st =
     (case st of (sc, conf, found) \<Rightarrow>
       (case item result of
          None \<Rightarrow> Inl AttributeError
        | Some it \<Rightarrow>
            (let r = lexical_root rt it in
             case positive_dict r of
               Some w \<Rightarrow>
                 Inr (sc + w * predicate_multiplier, conf + 1,
                      found\<lparr>positive_words := dd_append (positive_words found) r\<rparr>)
             | None \<Rightarrow>
                 (case negative_dict r of
                    Some w \<Rightarrow>
                      Inr (sc + w * predicate_multiplier * - 1, conf + 1,
                           found\<lparr>negative_words := dd_append (negative_words found) r\<rparr>)
                  | None \<Rightarrow> Inr (sc, conf, found)))))"

fun score_loop ::
  "runtime \<Rightarrow> lexicon \<Rightarrow> lexicon \<Rightarrow> int \<Rightarrow> analysis list \<Rightarrow> int \<times> nat \<times> features \<Rightarrow>
   py_error + (int \<times> nat \<times> features)"
where
  "score_loop rt positive_dict negative_dict predicate_multiplier [] st = Inr st"
| "score_loop rt positive_dict negative_dict predicate_multiplier (result # rest) st =
     (case score_step rt positive_dict negative_dict predicate_multiplier result st of
        Inl e \<Rightarrow> Inl e
      | Inr st' \<Rightarrow> score_loop rt positive_dict negative_dict predicate_multiplier rest st')"

text \<open>Lines 64-70: the predicate, when one was found, is recorded as a feature.\<close>

definition initial_features :: "predicate_info option \<Rightarrow> features" where
  "initial_features info =
     (case info of
        None \<Rightarrow> no_features
      | Some p \<Rightarrow>
          no_features\<lparr>predicate :=
            Some [\<lparr>pf_root = pi_root p, pf_is_negative = pi_is_negative p,
                   pf_analysis = pi_full_analysis p\<rparr>]\<rparr>)"

text \<open>Lines 89-95.\<close>

definition sentiment_of :: "int \<Rightarrow> sentiment_label" where
  "sentiment_of sc = (if sc > 0 then Positive else if sc < 0 then Negative else Neutral)"

text \<open>
  Lines 40-103: everything after \<open>tokens\<close> and \<open>results\<close> have been obtained. The division
  of line 87 is only evaluated when \<open>tokens\<close> is not empty, so it cannot raise.
\<close>

definition score_analyses ::
  "runtime \<Rightarrow> pystr list \<Rightarrow> analysis list \<Rightarrow> lexicon \<Rightarrow> lexicon \<Rightarrow> py_error + sentiment_result"
where
  "score_analyses rt tokens results positive_dict negative_dict =
     (case predicate_scan (rev results) (1, None) of
        Inl e \<Rightarrow> Inl e
      | Inr (predicate_multiplier, info) \<Rightarrow>
          (case score_loop rt positive_dict negative_dict predicate_multiplier results
                  (0, 0, initial_features info) of
             Inl e \<Rightarrow> Inl e
           | Inr (sc, conf, found) \<Rightarrow>
               Inr \<lparr>sentiment = sentiment_of sc,
                    score = sc,
                    confidence = (if tokens \<noteq> [] then of_nat conf / of_nat (length tokens) else 0),
                    feats = found,
                    predicate_analysis = info\<rparr>))"

text \<open>Lines 33-35: the token list.\<close>

definition tokens_of :: "runtime \<Rightarrow> pystr list \<Rightarrow> pystr list" where
  "tokens_of rt raw_tokens =
     map (str_lower rt) (filter (\<lambda>t. \<not> list_all (is_space rt) t) raw_tokens)"

text \<open>The body of the \<open>try\<close> block (lines 33-103); \<open>Inl\<close> is a raised exception.\<close>

definition analyze_sentiment_body ::
  "runtime \<Rightarrow> pystr \<Rightarrow> morphology \<Rightarrow> lexicon \<Rightarrow> lexicon \<Rightarrow> py_error + sentiment_result"
where
  "analyze_sentiment_body rt sentence morphology positive_dict negative_dict =
     (case tokenize rt (preprocess_text rt sentence) of
        Inl e \<Rightarrow> Inl e
      | Inr raw_tokens \<Rightarrow>
          (let tokens = tokens_of rt raw_tokens in
           case morphology (join_space tokens) of
             Inl e \<Rightarrow> Inl e
           | Inr results \<Rightarrow> score_analyses rt tokens results positive_dict negative_dict))"

text \<open>The value returned by the \<open>except Exception\<close> handler (lines 106-112).\<close>

definition error_result :: sentiment_result where
  "error_result =
     \<lparr>sentiment = Error, score = 0, confidence = 0, feats = no_features,
      predicate_analysis = None\<rparr>"

text \<open>
  The function (lines 32-112). An exception of the body that is not an \<open>Exception\<close>
  passes the \<open>except\<close> clause and reaches the caller. The handler first prints (line 105),
  outside any \<open>try\<close>, so an exception of the print reaches the caller as well; only then
  does it return the error result.
\<close>

definition analyze_sentiment ::
  "runtime \<Rightarrow> pystr \<Rightarrow> morphology \<Rightarrow> lexicon \<Rightarrow> lexicon \<Rightarrow> py_error + sentiment_result"
where
  "analyze_sentiment rt sentence morphology positive_dict negative_dict =
     (case analyze_sentiment_body rt sentence morphology positive_dict negative_dict of
        Inr r \<Rightarrow> Inr r
      | Inl e \<Rightarrow>
          (if is_Exception e then
             (case print_error rt e of
                Some e' \<Rightarrow> Inl e'
              | None \<Rightarrow> Inr error_result)
           else Inl e))"

section \<open>sentiment_analysis.evaluate_model\<close>

text \<open>
  The entries appended to \<open>results['predictions']\<close> and \<open>results['wrong_predictions']\<close>,
  and the dictionary \<open>results\<close> itself. Labels are the strings of the dataset.
\<close>

record prediction =
  p_text :: pystr
  p_true_label :: pystr
  p_predicted :: sentiment_label
  p_confidence :: rat
  p_features :: features

record wrong_prediction =
  wp_text :: pystr
  wp_true_label :: pystr
  wp_predicted :: sentiment_label
  wp_confidence :: rat

record eval_results =
  DP :: nat
  DN :: nat
  YP :: nat
  YN :: nat
  predictions :: "prediction list"
  wrong_predictions :: "wrong_prediction list"

definition initial_results :: eval_results where
  "initial_results =
     \<lparr>DP = 0, DN = 0, YP = 0, YN = 0, predictions = [], wrong_predictions = []\<rparr>"

definition wrong_entry :: "pystr \<Rightarrow> pystr \<Rightarrow> sentiment_result \<Rightarrow> wrong_prediction" where
  "wrong_entry sentence true_label analysis =
     \<lparr>wp_text = sentence, wp_true_label = true_label, wp_predicted = sentiment analysis,
      wp_confidence = confidence analysis\<rparr>"

definition prediction_entry :: "pystr \<Rightarrow> pystr \<Rightarrow> sentiment_result \<Rightarrow> prediction" where
  "prediction_entry sentence true_label analysis =
     \<lparr>p_text = sentence, p_true_label = true_label, p_predicted = sentiment analysis,
      p_confidence = confidence analysis, p_features = feats analysis\<rparr>"

text \<open>Lines 147-178: the \<open>if\<close>/\<open>elif\<close> chain, which has no final \<open>else\<close>.\<close>

definition classify :: "pystr \<Rightarrow> pystr \<Rightarrow> sentiment_result \<Rightarrow> eval_results \<Rightarrow> eval_results" where
  "classify sentence true_label analysis results =
     (let prediction = sentiment analysis in
      if prediction = Positive \<and> true_label = str_lit ''Pozitif'' then
        results\<lparr>DP := DP results + 1\<rparr>
      else if prediction = Negative \<and> true_label = str_lit ''Negatif'' then
        results\<lparr>DN := DN results + 1\<rparr>
      else if prediction = Positive \<and> true_label = str_lit ''Negatif'' then
        results\<lparr>YP := YP results + 1,
                wrong_predictions :=
                  wrong_predictions results @ [wrong_entry sentence true_label analysis]\<rparr>
      else if prediction = Negative \<and> true_label = str_lit ''Pozitif'' then
        results\<lparr>YN := YN results + 1,
                wrong_predictions :=
                  wrong_predictions results @ [wrong_entry sentence true_label analysis]\<rparr>
      else if prediction = Neutral then
        (if true_label = str_lit ''Pozitif''
         then results\<lparr>YN := YN results + 1\<rparr>
         else results\<lparr>YP := YP results + 1\<rparr>)
          \<lparr>wrong_predictions :=
             wrong_predictions results @ [wrong_entry sentence true_label analysis]\<rparr>
      else results)"

text \<open>
  One iteration of the loop of lines 143-186. The call of \<open>analyze_sentiment\<close> is not
  guarded, so an exception that it lets through ends the evaluation.
\<close>

definition evaluate_step ::
  "runtime \<Rightarrow> morphology \<Rightarrow> lexicon \<Rightarrow> lexicon \<Rightarrow> eval_results \<Rightarrow> pystr \<times> pystr \<Rightarrow>
   py_error + eval_results"
where
  "evaluate_step rt morphology positive_dict negative_dict results tc =
     (case tc of (sentence, true_label) \<Rightarrow>
       (case analyze_sentiment rt sentence morphology positive_dict negative_dict of
          Inl e \<Rightarrow> Inl e
        | Inr analysis \<Rightarrow>
            (let results' = classify sentence true_label analysis results
             in Inr (results'\<lparr>predictions :=
                  predictions results' @ [prediction_entry sentence true_label analysis]\<rparr>))))"

fun evaluate_loop ::
  "runtime \<Rightarrow> morphology \<Rightarrow> lexicon \<Rightarrow> lexicon \<Rightarrow> (pystr \<times> pystr) list \<Rightarrow> eval_results \<Rightarrow>
   py_error + eval_results"
where
  "evaluate_loop rt morphology positive_dict negative_dict [] results = Inr results"
| "evaluate_loop rt morphology positive_dict negative_dict (tc # rest) results =
     (case evaluate_step rt morphology positive_dict negative_dict results tc of
        Inl e \<Rightarrow> Inl e
      | Inr results' \<Rightarrow>
          evaluate_loop rt morphology positive_dict negative_dict rest results')"

definition evaluate_model ::
  "runtime \<Rightarrow> (pystr \<times> pystr) list \<Rightarrow> morphology \<Rightarrow> lexicon \<Rightarrow> lexicon \<Rightarrow>
   py_error + eval_results"
where
  "evaluate_model rt test_data morphology positive_dict negative_dict =
     evaluate_loop rt morphology positive_dict negative_dict test_data initial_results"

section \<open>main: the performance metrics\<close>

record metrics =
  accuracy :: rat
  precision :: rat
  recall :: rat
  f1 :: rat

text \<open>Python's \<open>a / b\<close>, which raises on a zero divisor.\<close>

definition truediv :: "rat \<Rightarrow> rat \<Rightarrow> py_error + rat" where
  "truediv a b = (if b = 0 then Inl ZeroDivisionError else Inr (a / b))"

text \<open>Lines 64-68 of \<open>main\<close>, as a function of the four counts.\<close>

definition compute_metrics :: "nat \<Rightarrow> nat \<Rightarrow> nat \<Rightarrow> nat \<Rightarrow> py_error + metrics" where
  "compute_metrics dp dn yp yn =
     (let total = dp + dn + yp + yn in
      case (if total > 0 then truediv (of_nat (dp + dn)) (of_nat total) else Inr 0) of
        Inl e \<Rightarrow> Inl e
      | Inr acc \<Rightarrow>
     (case (if dp + yp > 0 then truediv (of_nat dp) (of_nat (dp + yp)) else Inr 0) of
        Inl e \<Rightarrow> Inl e
      | Inr prec \<Rightarrow>
     (case (if dp + yn > 0 then truediv (of_nat dp) (of_nat (dp + yn)) else Inr 0) of
        Inl e \<Rightarrow> Inl e
      | Inr rcl \<Rightarrow>
     (case (if prec + rcl > 0 then truediv (2 * prec * rcl) (prec + rcl) else Inr 0) of
        Inl e \<Rightarrow> Inl e
      | Inr f \<Rightarrow> Inr \<lparr>accuracy = acc, precision = prec, recall = rcl, f1 = f\<rparr>))))"

section \<open>Notions used to state the properties\<close>

text \<open>
  These definitions do not translate code; they name what the specification talks about.
  An analysis list is well formed when the attribute access \<open>analysis.item\<close> succeeds on
  every element. \<open>adapter_output\<close> is what lines 33-38 hand to the rest of the function:
  the token list and the analyses.
\<close>

definition well_formed :: "analysis list \<Rightarrow> bool" where
  "well_formed results = list_all (\<lambda>a. item a \<noteq> None) results"

definition adapter_output ::
  "runtime \<Rightarrow> morphology \<Rightarrow> pystr \<Rightarrow> py_error + (pystr list \<times> analysis list)"
where
  "adapter_output rt morphology sentence =
     (case tokenize rt (preprocess_text rt sentence) of
        Inl e \<Rightarrow> Inl e
      | Inr raw_tokens \<Rightarrow>
          (case morphology (join_space (tokens_of rt raw_tokens)) of
             Inl e \<Rightarrow> Inl e
           | Inr results \<Rightarrow> Inr (tokens_of rt raw_tokens, results)))"

text \<open>
  Modelled from the spec: the morphological analysis adapter is not part of the repository.
  The specification describes its output as one \<open>TokenAnalysis\<close> per token of the
  sentence, in the order of the tokens ("Order matches original sentence token order"),
  and divides the match count by the "totalTokenCount". \<open>per_token\<close> states the part of
  this contract that relates the two lists the code works with.
\<close>

definition per_token :: "pystr list \<Rightarrow> analysis list \<Rightarrow> bool" where
  "per_token tokens results = (length results = length tokens)"

text \<open>
  The two substring tests of the predicate scan, and the predicate record that the scan
  builds from a verb-tagged analysis.
\<close>

definition verb_tagged :: "analysis \<Rightarrow> bool" where
  "verb_tagged a = str_contains (str_lit ''Verb'') (as_text a)"

definition neg_tagged :: "analysis \<Rightarrow> bool" where
  "neg_tagged a = str_contains (str_lit ''Neg'') (as_text a)"

definition predicate_of :: "analysis \<Rightarrow> dict_item \<Rightarrow> predicate_info" where
  "predicate_of a it =
     \<lparr>pi_root = root it, pi_is_negative = neg_tagged a, pi_full_analysis = as_text a\<rparr>"

text \<open>
  The looked-up root of an analysis, the number of lexicon matches of a sentence, and the
  score that the sentence gets under the multiplier \<open>+1\<close>, all written as the specification
  describes them: a root counts once, as positive when the positive lexicon has it and as
  negative otherwise.
\<close>

definition analysis_root :: "runtime \<Rightarrow> analysis \<Rightarrow> pystr" where
  "analysis_root rt a = (case item a of None \<Rightarrow> [] | Some it \<Rightarrow> lexical_root rt it)"

definition is_match :: "lexicon \<Rightarrow> lexicon \<Rightarrow> pystr \<Rightarrow> bool" where
  "is_match positive_dict negative_dict r = (positive_dict r \<noteq> None \<or> negative_dict r \<noteq> None)"

definition match_count :: "runtime \<Rightarrow> lexicon \<Rightarrow> lexicon \<Rightarrow> analysis list \<Rightarrow> nat" where
  "match_count rt positive_dict negative_dict results =
     length (filter (is_match positive_dict negative_dict) (map (analysis_root rt) results))"

definition contribution :: "lexicon \<Rightarrow> lexicon \<Rightarrow> pystr \<Rightarrow> int" where
  "contribution positive_dict negative_dict r =
     (case positive_dict r of
        Some w \<Rightarrow> w
      | None \<Rightarrow> (case negative_dict r of Some w \<Rightarrow> - w | None \<Rightarrow> 0))"

definition base_score :: "runtime \<Rightarrow> lexicon \<Rightarrow> lexicon \<Rightarrow> analysis list \<Rightarrow> int" where
  "base_score rt positive_dict negative_dict results =
     sum_list (map (contribution positive_dict negative_dict \<circ> analysis_root rt) results)"

text \<open>
  Appending a list of words, one \<open>append\<close> at a time, to an entry of the
  \<open>defaultdict\<close>.
\<close>

fun dd_extend :: "'a list option \<Rightarrow> 'a list \<Rightarrow> 'a list option" where
  "dd_extend d [] = d"
| "dd_extend d (x # xs) = dd_extend (dd_append d x) xs"

section \<open>Concrete scenarios\<close>

text \<open>
  A small runtime and morphology on which the scenarios of the specification can be
  evaluated: lowercasing of ASCII letters, whitespace tokenization, and an analyser that
  tags the word \<open>degil\<close> (the code points of the Turkish negation word of scenario B) as a
  negated verb and every other word as a noun. \<open>iyi\<close> and \<open>kotu\<close> are the code points of
  the lexicon entries of scenarios A and B.
\<close>

definition ascii_lower :: "pystr \<Rightarrow> pystr" where
  "ascii_lower s = map (\<lambda>c. if 65 \<le> c \<and> c \<le> 90 then c + 32 else c) s"

fun split_spaces :: "pystr \<Rightarrow> pystr \<Rightarrow> pystr list" where
  "split_spaces [] cur = (if cur = [] then [] else [cur])"
| "split_spaces (c # cs) cur =
     (if c = 32 then (if cur = [] then split_spaces cs [] else cur # split_spaces cs [])
      else split_spaces cs (cur @ [c]))"

definition demo_runtime :: runtime where
  "demo_runtime =
     \<lparr>str_lower = ascii_lower,
      is_word = (\<lambda>c. (48 \<le> c \<and> c \<le> 57) \<or> (65 \<le> c \<and> c \<le> 90) \<or> c = 95 \<or> 97 \<le> c),
      is_space = (\<lambda>c. c = 32 \<or> (9 \<le> c \<and> c \<le> 13)),
      tokenize = (\<lambda>s. Inr (split_spaces s [])),
      print_error = (\<lambda>e. None)\<rparr>"

definition kotu :: pystr where "kotu = [107, 246, 116, 252]"

definition degil :: pystr where "degil = [100, 101, 287, 105, 108]"

definition iyi :: pystr where "iyi = [105, 121, 105]"

definition analyse_word :: "pystr \<Rightarrow> analysis" where
  "analyse_word t =
     \<lparr>item = Some \<lparr>root = Some t, normalized_form = Some t\<rparr>,
      as_text = (if t = degil then t @ str_lit '':Verb+Neg'' else t @ str_lit '':Noun'')\<rparr>"

definition demo_morphology :: morphology where
  "demo_morphology text = Inr (map analyse_word (split_spaces text []))"

text \<open>
  Three further morphologies: one that raises an \<open>Exception\<close>, one that is interrupted
  from the keyboard, and one that returns an analysis without \<open>item\<close>.
\<close>

definition failing_morphology :: morphology where
  "failing_morphology text = Inl MorphologyError"

definition malformed_morphology :: morphology where
  "malformed_morphology text = Inr [\<lparr>item = None, as_text = text\<rparr>]"

definition interrupted_morphology :: morphology where
  "interrupted_morphology text = Inl KeyboardInterrupt"

section \<open>Facts about the model\<close>

subsection \<open>The try block\<close>

lemma body_adapter:
  "analyze_sentiment_body rt s mo pos neg =
     (case adapter_output rt mo s of
        Inl e \<Rightarrow> Inl e
      | Inr (tokens, results) \<Rightarrow> score_analyses rt tokens results pos neg)"
  by (simp add: analyze_sentiment_body_def adapter_output_def Let_def split: sum.splits)

lemma score_analyses_sentiment:
  assumes "score_analyses rt tokens results pos neg = Inr r"
  shows "sentiment r = sentiment_of (score r)"
  using assms
  by (auto simp: score_analyses_def split: sum.splits prod.splits)

lemma sentiment_of_not_Error: "sentiment_of sc \<noteq> Error"
  by (simp add: sentiment_of_def)

lemma body_sentiment:
  assumes "analyze_sentiment_body rt s mo pos neg = Inr r"
  shows "sentiment r = sentiment_of (score r)"
  using assms score_analyses_sentiment
  by (auto simp: body_adapter split: sum.splits prod.splits)

lemma analyze_sentiment_Inr:
  assumes "analyze_sentiment rt s mo pos neg = Inr r"
  shows "analyze_sentiment_body rt s mo pos neg = Inr r \<or>
         (r = error_result \<and>
          (\<exists>e. analyze_sentiment_body rt s mo pos neg = Inl e \<and> is_Exception e \<and>
               print_error rt e = None))"
  using assms
  by (auto simp: analyze_sentiment_def split: sum.splits if_splits option.splits)

subsection \<open>The scoring loop\<close>

lemma score_step_wf:
  assumes "item a = Some it"
  shows "score_step rt pos neg m a (sc, conf, found) =
     Inr (sc + m * contribution pos neg (analysis_root rt a),
          conf + (if is_match pos neg (analysis_root rt a) then 1 else 0),
          found\<lparr>positive_words :=
                  dd_extend (positive_words found)
                    (filter (\<lambda>r. pos r \<noteq> None) [analysis_root rt a]),
                negative_words :=
                  dd_extend (negative_words found)
                    (filter (\<lambda>r. pos r = None \<and> neg r \<noteq> None) [analysis_root rt a])\<rparr>)"
  using assms
  by (auto simp: score_step_def analysis_root_def contribution_def is_match_def Let_def
           split: option.splits)

lemma score_loop_wf:
  assumes "well_formed results"
  shows "score_loop rt pos neg m results (sc, conf, found) =
     Inr (sc + m * base_score rt pos neg results,
          conf + match_count rt pos neg results,
          found\<lparr>positive_words :=
                  dd_extend (positive_words found)
                    (filter (\<lambda>r. pos r \<noteq> None) (map (analysis_root rt) results)),
                negative_words :=
                  dd_extend (negative_words found)
                    (filter (\<lambda>r. pos r = None \<and> neg r \<noteq> None) (map (analysis_root rt) results))\<rparr>)"
  using assms
proof (induction results arbitrary: sc conf found)
  case Nil
  then show ?case by (simp add: base_score_def match_count_def)
next
  case (Cons a results)
  from Cons.prems obtain it where it: "item a = Some it" and wf: "well_formed results"
    by (auto simp: well_formed_def)
  show ?case
    apply (simp only: score_loop.simps score_step_wf[OF it] sum.case Cons.IH[OF wf])
    apply (simp add: base_score_def match_count_def algebra_simps)
    done
qed

lemma score_loop_malformed:
  assumes "\<not> well_formed results"
  shows "score_loop rt pos neg m results st = Inl AttributeError"
  using assms
proof (induction results arbitrary: st)
  case Nil
  then show ?case by (simp add: well_formed_def)
next
  case (Cons a results)
  show ?case
  proof (cases "item a")
    case None
    then show ?thesis by (cases st) (simp add: score_step_def)
  next
    case (Some it)
    with Cons.prems have "\<not> well_formed results" by (simp add: well_formed_def)
    then show ?thesis
      using Cons.IH Some by (cases st) (simp add: score_step_wf)
  qed
qed

lemma dd_extend_Some: "dd_extend (Some ys) xs = Some (ys @ xs)"
  by (induction xs arbitrary: ys) simp_all

lemma dd_extend_None: "dd_extend None xs = (if xs = [] then None else Some xs)"
  by (cases xs) (simp_all add: dd_extend_Some)

lemma no_match_base_score:
  assumes "\<forall>a \<in> set results. pos (analysis_root rt a) = None \<and> neg (analysis_root rt a) = None"
  shows "base_score rt pos neg results = 0" and "match_count rt pos neg results = 0"
  using assms
  by (induction results) (simp_all add: base_score_def match_count_def contribution_def is_match_def)

lemma single_negative_base_score:
  assumes "\<forall>a \<in> set results. pos (analysis_root rt a) = None"
  shows "base_score rt pos [k \<mapsto> 1] results =
           - int (length (filter (\<lambda>a. analysis_root rt a = k) results))"
  using assms
  by (induction results) (simp_all add: base_score_def contribution_def)

subsection \<open>The predicate scan\<close>

lemma scan_cons_no_verb:
  assumes "\<not> verb_tagged a"
  shows "predicate_scan (a # xs) st = predicate_scan xs st"
  using assms by (cases st) (simp add: verb_tagged_def)

lemma scan_skip:
  assumes "list_all (\<lambda>a. \<not> verb_tagged a) xs"
  shows "predicate_scan (xs @ ys) st = predicate_scan ys st"
  using assms
  by (induction xs) (simp_all add: scan_cons_no_verb)

lemma scan_verb:
  assumes "verb_tagged v" and "item v = Some it"
  shows "predicate_scan (v # ys) (m, info) =
           Inr (if neg_tagged v then - m else m, Some (predicate_of v it))"
  using assms by (simp add: verb_tagged_def neg_tagged_def predicate_of_def Let_def)

lemma scan_verb_malformed:
  assumes "verb_tagged v" and "item v = None"
  shows "predicate_scan (v # ys) st = Inl AttributeError"
  using assms by (cases st) (simp add: verb_tagged_def Let_def)

lemma scan_result:
  assumes "predicate_scan xs (m0, i0) = Inr (m, info)"
  shows "(m = m0 \<and> info = i0) \<or>
         (\<exists>p. info = Some p \<and> m = (if pi_is_negative p then - m0 else m0))"
  using assms
proof (induction xs)
  case Nil
  then show ?case by simp
next
  case (Cons a xs)
  show ?case
  proof (cases "verb_tagged a")
    case False
    from Cons.prems have "predicate_scan xs (m0, i0) = Inr (m, info)"
      by (simp only: scan_cons_no_verb[OF False])
    then show ?thesis by (rule Cons.IH)
  next
    case True
    show ?thesis
    proof (cases "item a")
      case None
      from Cons.prems show ?thesis
        by (simp only: scan_verb_malformed[OF True None]) simp
    next
      case (Some it)
      from Cons.prems have "m = (if neg_tagged a then - m0 else m0)"
        and "info = Some (predicate_of a it)"
        by (simp_all only: scan_verb[OF True Some] sum.inject prod.inject)
      then show ?thesis by (simp add: predicate_of_def)
    qed
  qed
qed

lemma scan_errors:
  assumes "predicate_scan xs st = Inl e"
  shows "e = AttributeError \<and> \<not> well_formed xs"
  using assms
proof (induction xs)
  case Nil
  then show ?case by simp
next
  case (Cons a xs)
  show ?case
  proof (cases "verb_tagged a")
    case False
    from Cons.prems have "predicate_scan xs st = Inl e"
      by (simp only: scan_cons_no_verb[OF False])
    then have "e = AttributeError \<and> \<not> well_formed xs" by (rule Cons.IH)
    then show ?thesis by (simp add: well_formed_def)
  next
    case True
    show ?thesis
    proof (cases "item a")
      case None
      from Cons.prems have "e = AttributeError"
        by (simp only: scan_verb_malformed[OF True None]) simp
      with None show ?thesis by (simp add: well_formed_def)
    next
      case (Some it)
      obtain m0 i0 where st: "st = (m0, i0)" by (cases st)
      from Cons.prems show ?thesis
        unfolding st by (simp only: scan_verb[OF True Some]) simp
    qed
  qed
qed

lemma well_formed_rev: "well_formed (rev xs) = well_formed xs"
  by (simp add: well_formed_def list_all_iff)

subsection \<open>The whole function on well-formed and on malformed analyses\<close>

lemma score_analyses_wf:
  assumes "well_formed results"
  shows "\<exists>m info. predicate_scan (rev results) (1, None) = Inr (m, info) \<and>
          score_analyses rt tokens results pos neg =
            Inr \<lparr>sentiment = sentiment_of (m * base_score rt pos neg results),
                 score = m * base_score rt pos neg results,
                 confidence = (if tokens \<noteq> [] then of_nat (match_count rt pos neg results) / of_nat (length tokens) else 0),
                 feats = (initial_features info)
                   \<lparr>positive_words :=
                      dd_extend None (filter (\<lambda>r. pos r \<noteq> None) (map (analysis_root rt) results)),
                    negative_words :=
                      dd_extend None (filter (\<lambda>r. pos r = None \<and> neg r \<noteq> None) (map (analysis_root rt) results))\<rparr>,
                 predicate_analysis = info\<rparr>"
proof (cases "predicate_scan (rev results) (1, None)")
  case (Inl e)
  with scan_errors[OF Inl] assms show ?thesis by (simp add: well_formed_rev)
next
  case (Inr st)
  obtain m info where st: "st = (m, info)" by (cases st)
  have pw: "positive_words (initial_features info) = None"
    and nw: "negative_words (initial_features info) = None"
    by (simp_all add: initial_features_def no_features_def split: option.splits)
  show ?thesis
    using Inr st pw nw by (simp add: score_analyses_def score_loop_wf[OF assms])
qed

lemma score_analyses_malformed:
  assumes "\<not> well_formed results"
  shows "score_analyses rt tokens results pos neg = Inl AttributeError"
proof (cases "predicate_scan (rev results) (1, None)")
  case (Inl e)
  with scan_errors[OF Inl] show ?thesis by (simp add: score_analyses_def)
next
  case (Inr st)
  then show ?thesis
    by (simp add: score_analyses_def score_loop_malformed[OF assms] split: prod.splits)
qed

lemma analyze_sentiment_wf:
  assumes "adapter_output rt mo s = Inr (tokens, results)" and "well_formed results"
  shows "\<exists>m info. predicate_scan (rev results) (1, None) = Inr (m, info) \<and>
          analyze_sentiment rt s mo pos neg =
            Inr \<lparr>sentiment = sentiment_of (m * base_score rt pos neg results),
             score = m * base_score rt pos neg results,
             confidence = (if tokens \<noteq> [] then of_nat (match_count rt pos neg results) / of_nat (length tokens) else 0),
             feats = (initial_features info)
               \<lparr>positive_words :=
                  dd_extend None (filter (\<lambda>r. pos r \<noteq> None) (map (analysis_root rt) results)),
                negative_words :=
                  dd_extend None (filter (\<lambda>r. pos r = None \<and> neg r \<noteq> None) (map (analysis_root rt) results))\<rparr>,
             predicate_analysis = info\<rparr>"
proof -
  from score_analyses_wf[OF assms(2), of rt tokens pos neg]
  obtain m info where scan: "predicate_scan (rev results) (1, None) = Inr (m, info)"
    and sa: "score_analyses rt tokens results pos neg =
            Inr \<lparr>sentiment = sentiment_of (m * base_score rt pos neg results),
             score = m * base_score rt pos neg results,
             confidence = (if tokens \<noteq> [] then of_nat (match_count rt pos neg results) / of_nat (length tokens) else 0),
             feats = (initial_features info)
               \<lparr>positive_words :=
                  dd_extend None (filter (\<lambda>r. pos r \<noteq> None) (map (analysis_root rt) results)),
                negative_words :=
                  dd_extend None (filter (\<lambda>r. pos r = None \<and> neg r \<noteq> None) (map (analysis_root rt) results))\<rparr>,
             predicate_analysis = info\<rparr>"
    by blast
  have "analyze_sentiment_body rt s mo pos neg = score_analyses rt tokens results pos neg"
    by (simp add: body_adapter assms(1))
  with scan sa show ?thesis by (simp add: analyze_sentiment_def)
qed

lemma body_malformed:
  assumes "adapter_output rt mo s = Inr (tokens, results)" and "\<not> well_formed results"
  shows "analyze_sentiment_body rt s mo pos neg = Inl AttributeError"
  by (simp add: body_adapter assms(1) score_analyses_malformed[OF assms(2)])

subsection \<open>The evaluation loop\<close>

lemma classify_predictions: "predictions (classify s l a res) = predictions res"
  by (simp add: classify_def Let_def)

lemma evaluate_step_Inr:
  assumes "analyze_sentiment rt s mo pos neg = Inr a"
  shows "\<exists>res'. evaluate_step rt mo pos neg res (s, l) = Inr res' \<and>
           predictions res' = predictions res @ [prediction_entry s l a]"
  using assms by (simp add: evaluate_step_def Let_def classify_predictions)

lemma evaluate_step_Inl:
  assumes "analyze_sentiment rt s mo pos neg = Inl e"
  shows "evaluate_step rt mo pos neg res (s, l) = Inl e"
  using assms by (simp add: evaluate_step_def)

lemma evaluate_loop_returns:
  assumes "map (\<lambda>(s, l). analyze_sentiment rt s mo pos neg) tds = map Inr rs"
  shows "\<exists>res'. evaluate_loop rt mo pos neg tds res = Inr res' \<and>
           predictions res' =
             predictions res @ map2 (\<lambda>(s, l) a. prediction_entry s l a) tds rs"
  using assms
proof (induction tds arbitrary: rs res)
  case Nil
  then show ?case by simp
next
  case (Cons tc tds)
  obtain s l where tc: "tc = (s, l)" by (cases tc)
  from Cons.prems obtain a rs' where rs: "rs = a # rs'"
    and a: "analyze_sentiment rt s mo pos neg = Inr a"
    and rest: "map (\<lambda>(s, l). analyze_sentiment rt s mo pos neg) tds = map Inr rs'"
    unfolding tc by (cases rs) auto
  from evaluate_step_Inr[OF a, of res l]
  obtain res1 where st: "evaluate_step rt mo pos neg res (s, l) = Inr res1"
    and p1: "predictions res1 = predictions res @ [prediction_entry s l a]"
    by blast
  from Cons.IH[OF rest, of res1]
  obtain res' where lp: "evaluate_loop rt mo pos neg tds res1 = Inr res'"
    and p': "predictions res' =
               predictions res1 @ map2 (\<lambda>(s, l) a. prediction_entry s l a) tds rs'"
    by blast
  from st lp have "evaluate_loop rt mo pos neg (tc # tds) res = Inr res'"
    by (simp add: tc)
  moreover from p1 p' have "predictions res' =
      predictions res @ map2 (\<lambda>(s, l) a. prediction_entry s l a) (tc # tds) rs"
    by (simp add: tc rs)
  ultimately show ?case by blast
qed

lemma evaluate_loop_calls:
  assumes "evaluate_loop rt mo pos neg tds res = Inr res'"
  shows "\<exists>rs. map (\<lambda>(s, l). analyze_sentiment rt s mo pos neg) tds = map Inr rs"
  using assms
proof (induction tds arbitrary: res)
  case Nil
  then show ?case by simp
next
  case (Cons tc tds)
  obtain s l where tc: "tc = (s, l)" by (cases tc)
  show ?case
  proof (cases "analyze_sentiment rt s mo pos neg")
    case (Inl e)
    from evaluate_step_Inl[OF Inl, of res l] Cons.prems show ?thesis
      by (simp add: tc)
  next
    case (Inr a)
    from evaluate_step_Inr[OF Inr, of res l]
    obtain res1 where st: "evaluate_step rt mo pos neg res (s, l) = Inr res1" by blast
    with Cons.prems have "evaluate_loop rt mo pos neg tds res1 = Inr res'"
      by (simp add: tc)
    from Cons.IH[OF this]
    obtain rs where "map (\<lambda>(s, l). analyze_sentiment rt s mo pos neg) tds = map Inr rs"
      by blast
    with Inr have "map (\<lambda>(s, l). analyze_sentiment rt s mo pos neg) (tc # tds) =
                     map Inr (a # rs)"
      by (simp add: tc)
    then show ?thesis by blast
  qed
qed

lemma classify_Error:
  assumes "sentiment analysis = Error"
  shows "classify sentence true_label analysis results = results"
  using assms by (simp add: classify_def)

subsection \<open>The scenarios, evaluated\<close>

lemmas fixture_defs =
  demo_runtime_def ascii_lower_def kotu_def degil_def iyi_def analyse_word_def
  demo_morphology_def failing_morphology_def malformed_morphology_def interrupted_morphology_def
  str_lit_def

lemmas model_defs =
  analyze_sentiment_def analyze_sentiment_body_def preprocess_text_def tokens_of_def
  score_analyses_def score_step_def lexical_root_def py_or_def initial_features_def
  no_features_def sentiment_of_def error_result_def adapter_output_def well_formed_def
  verb_tagged_def neg_tagged_def analysis_root_def

lemma demo_adapter_film:
  "adapter_output demo_runtime demo_morphology (str_lit ''bir film'') =
     Inr ([str_lit ''bir'', str_lit ''film''], [analyse_word (str_lit ''bir''), analyse_word (str_lit ''film'')])"
  by (simp add: adapter_output_def preprocess_text_def tokens_of_def fixture_defs)

lemma demo_adapter_kotu_degil:
  "adapter_output demo_runtime demo_morphology (kotu @ [32] @ degil) =
     Inr ([kotu, degil], [analyse_word kotu, analyse_word degil])"
  by (simp add: adapter_output_def preprocess_text_def tokens_of_def fixture_defs)

lemma demo_adapter_iyi:
  "adapter_output demo_runtime demo_morphology iyi = Inr ([iyi], [analyse_word iyi])"
  by (simp add: adapter_output_def preprocess_text_def tokens_of_def fixture_defs)

lemma demo_iyi_result:
  "analyze_sentiment demo_runtime iyi demo_morphology [iyi \<mapsto> 1] [kotu \<mapsto> 1] =
     Inr \<lparr>sentiment = Positive, score = 1, confidence = 1,
          feats = \<lparr>predicate = None, positive_words = Some [iyi], negative_words = None\<rparr>,
          predicate_analysis = None\<rparr>"
  by (simp add: analyze_sentiment_def body_adapter demo_adapter_iyi)
     (simp add: fixture_defs model_defs)

lemma demo_failing_result:
  "analyze_sentiment demo_runtime iyi failing_morphology [iyi \<mapsto> 1] [kotu \<mapsto> 1] =
     Inr error_result"
  by (simp add: analyze_sentiment_def analyze_sentiment_body_def failing_morphology_def
        demo_runtime_def)

lemma demo_film_result:
  "analyze_sentiment demo_runtime (str_lit ''bir film'') demo_morphology [iyi \<mapsto> 1] [kotu \<mapsto> 1] =
     Inr \<lparr>sentiment = Neutral, score = 0, confidence = 0, feats = no_features,
          predicate_analysis = None\<rparr>"
  by (simp add: analyze_sentiment_def body_adapter demo_adapter_film)
     (simp add: fixture_defs model_defs)


section \<open>The claims\<close>

text \<open>
  Claim C1. The specification says that a test case whose result has sentiment \<open>Error\<close> is
  bucketed like a \<open>Neutral\<close> prediction (\<open>YN\<close> for the label "Pozitif", \<open>YP\<close> otherwise) and
  is appended to \<open>wrong_predictions\<close>. The \<open>if\<close>/\<open>elif\<close> chain of \<open>evaluate_model\<close> has no
  branch for \<open>Error\<close>: on a one-element dataset whose sentence makes the morphology raise,
  all four counts stay 0 and \<open>wrong_predictions\<close> stays empty, while the same label with a
  \<open>Neutral\<close> prediction increments \<open>YN\<close> and is recorded as wrong.
\<close>

theorem error_prediction_is_dropped:
  "evaluate_model demo_runtime [(iyi, str_lit ''Pozitif'')] failing_morphology
       [iyi \<mapsto> 1] [kotu \<mapsto> 1] =
     Inr \<lparr>DP = 0, DN = 0, YP = 0, YN = 0,
      predictions =
        [\<lparr>p_text = iyi, p_true_label = str_lit ''Pozitif'', p_predicted = Error,
          p_confidence = 0, p_features = no_features\<rparr>],
      wrong_predictions = []\<rparr> \<and>
   evaluate_model demo_runtime [(str_lit ''bir film'', str_lit ''Pozitif'')] demo_morphology
       [iyi \<mapsto> 1] [kotu \<mapsto> 1] =
     Inr \<lparr>DP = 0, DN = 0, YP = 0, YN = 1,
      predictions =
        [\<lparr>p_text = str_lit ''bir film'', p_true_label = str_lit ''Pozitif'',
          p_predicted = Neutral, p_confidence = 0, p_features = no_features\<rparr>],
      wrong_predictions =
        [\<lparr>wp_text = str_lit ''bir film'', wp_true_label = str_lit ''Pozitif'',
          wp_predicted = Neutral, wp_confidence = 0\<rparr>]\<rparr>"
  by (simp add: evaluate_model_def evaluate_step_def demo_failing_result demo_film_result
        classify_def initial_results_def prediction_entry_def wrong_entry_def error_result_def)

text \<open>
  Claim C2. The specification says that any exception of any step is caught and turned
  into the \<open>Error\<close> result, so that no exception ever reaches the caller. The clause is
  \<open>except Exception\<close>: an interrupt from the keyboard during the morphological analysis is
  not an \<open>Exception\<close> and reaches the caller. The handler prints before it returns: when
  that print raises, its exception reaches the caller too.
\<close>

theorem fail_soft_counterexample:
  "analyze_sentiment demo_runtime iyi interrupted_morphology [iyi \<mapsto> 1] [kotu \<mapsto> 1] =
     Inl KeyboardInterrupt \<and>
   analyze_sentiment (demo_runtime\<lparr>print_error := (\<lambda>e. Some OSError)\<rparr>) iyi failing_morphology
       [iyi \<mapsto> 1] [kotu \<mapsto> 1] =
     Inl OSError"
  by (simp add: analyze_sentiment_def analyze_sentiment_body_def failing_morphology_def
        interrupted_morphology_def demo_runtime_def)

text \<open>
  Claim C2, as the code has it. When a step raises an \<open>Exception\<close> (the tokenizer, the
  morphology, the attribute access on a malformed analysis, or any other step of the
  body) and the print of the handler returns, \<open>analyze_sentiment\<close> returns exactly the
  result with sentiment \<open>Error\<close>, score 0, confidence 0, no features and no predicate
  analysis. An exception of the body that is not an \<open>Exception\<close> reaches the caller, and
  so does an exception raised by the print of the handler. When the body returns, the
  function returns its result, whose sentiment is not \<open>Error\<close>; so a returned result with
  sentiment \<open>Error\<close> is always exactly the error result.
\<close>

theorem analyze_sentiment_fail_soft:
  "(tokenize rt (preprocess_text rt s) = Inl e \<and> is_Exception e \<and> print_error rt e = None \<longrightarrow>
      analyze_sentiment rt s mo pos neg =
        Inr \<lparr>sentiment = Error, score = 0, confidence = 0,
             feats = \<lparr>predicate = None, positive_words = None, negative_words = None\<rparr>,
             predicate_analysis = None\<rparr>) \<and>
   (tokenize rt (preprocess_text rt s) = Inr raw \<and>
    mo (join_space (tokens_of rt raw)) = Inl e \<and> is_Exception e \<and> print_error rt e = None \<longrightarrow>
      analyze_sentiment rt s mo pos neg =
        Inr \<lparr>sentiment = Error, score = 0, confidence = 0,
             feats = \<lparr>predicate = None, positive_words = None, negative_words = None\<rparr>,
             predicate_analysis = None\<rparr>) \<and>
   (tokenize rt (preprocess_text rt s) = Inr raw \<and>
    mo (join_space (tokens_of rt raw)) = Inr results \<and> \<not> well_formed results \<and>
    print_error rt AttributeError = None \<longrightarrow>
      analyze_sentiment rt s mo pos neg =
        Inr \<lparr>sentiment = Error, score = 0, confidence = 0,
             feats = \<lparr>predicate = None, positive_words = None, negative_words = None\<rparr>,
             predicate_analysis = None\<rparr>) \<and>
   (analyze_sentiment_body rt s mo pos neg = Inl e \<and> is_Exception e \<and>
    print_error rt e = None \<longrightarrow>
      analyze_sentiment rt s mo pos neg =
        Inr \<lparr>sentiment = Error, score = 0, confidence = 0,
             feats = \<lparr>predicate = None, positive_words = None, negative_words = None\<rparr>,
             predicate_analysis = None\<rparr>) \<and>
   (analyze_sentiment_body rt s mo pos neg = Inl e \<and> \<not> is_Exception e \<longrightarrow>
      analyze_sentiment rt s mo pos neg = Inl e) \<and>
   (analyze_sentiment_body rt s mo pos neg = Inl e \<and> is_Exception e \<and>
    print_error rt e = Some e' \<longrightarrow>
      analyze_sentiment rt s mo pos neg = Inl e') \<and>
   (analyze_sentiment_body rt s mo pos neg = Inr r \<longrightarrow>
      analyze_sentiment rt s mo pos neg = Inr r \<and> sentiment r \<noteq> Error) \<and>
   (analyze_sentiment rt s mo pos neg = Inr r \<and> sentiment r = Error \<longrightarrow>
      r = \<lparr>sentiment = Error, score = 0, confidence = 0,
           feats = \<lparr>predicate = None, positive_words = None, negative_words = None\<rparr>,
           predicate_analysis = None\<rparr>)"
proof -
  let ?err = "\<lparr>sentiment = Error, score = 0, confidence = 0,
             feats = \<lparr>predicate = None, positive_words = None, negative_words = None\<rparr>,
             predicate_analysis = None\<rparr>"
  have err: "error_result = ?err"
    by (simp add: error_result_def no_features_def)
  have caught: "analyze_sentiment rt s mo pos neg = Inr ?err"
    if "analyze_sentiment_body rt s mo pos neg = Inl x" and "is_Exception x"
      and "print_error rt x = None" for x
    using that by (simp add: analyze_sentiment_def err)
  have c1: "tokenize rt (preprocess_text rt s) = Inl e \<and> is_Exception e \<and>
      print_error rt e = None \<longrightarrow> analyze_sentiment rt s mo pos neg = Inr ?err"
  proof
    assume h: "tokenize rt (preprocess_text rt s) = Inl e \<and> is_Exception e \<and>
      print_error rt e = None"
    then have "analyze_sentiment_body rt s mo pos neg = Inl e"
      by (simp add: analyze_sentiment_body_def)
    with h show "analyze_sentiment rt s mo pos neg = Inr ?err" by (simp add: caught)
  qed
  have c2: "tokenize rt (preprocess_text rt s) = Inr raw \<and>
      mo (join_space (tokens_of rt raw)) = Inl e \<and> is_Exception e \<and> print_error rt e = None
      \<longrightarrow> analyze_sentiment rt s mo pos neg = Inr ?err"
  proof
    assume h: "tokenize rt (preprocess_text rt s) = Inr raw \<and>
      mo (join_space (tokens_of rt raw)) = Inl e \<and> is_Exception e \<and> print_error rt e = None"
    then have "analyze_sentiment_body rt s mo pos neg = Inl e"
      by (simp add: analyze_sentiment_body_def)
    with h show "analyze_sentiment rt s mo pos neg = Inr ?err" by (simp add: caught)
  qed
  have c3: "tokenize rt (preprocess_text rt s) = Inr raw \<and>
      mo (join_space (tokens_of rt raw)) = Inr results \<and> \<not> well_formed results \<and>
      print_error rt AttributeError = None
      \<longrightarrow> analyze_sentiment rt s mo pos neg = Inr ?err"
  proof
    assume h: "tokenize rt (preprocess_text rt s) = Inr raw \<and>
      mo (join_space (tokens_of rt raw)) = Inr results \<and> \<not> well_formed results \<and>
      print_error rt AttributeError = None"
    then have "analyze_sentiment_body rt s mo pos neg = Inl AttributeError"
      by (simp add: analyze_sentiment_body_def score_analyses_malformed)
    with h show "analyze_sentiment rt s mo pos neg = Inr ?err" by (simp add: caught)
  qed
  have c4: "analyze_sentiment_body rt s mo pos neg = Inl e \<and> is_Exception e \<and>
      print_error rt e = None \<longrightarrow> analyze_sentiment rt s mo pos neg = Inr ?err"
    by (simp add: caught)
  have c5: "analyze_sentiment_body rt s mo pos neg = Inl e \<and> \<not> is_Exception e \<longrightarrow>
      analyze_sentiment rt s mo pos neg = Inl e"
    by (simp add: analyze_sentiment_def)
  have c6: "analyze_sentiment_body rt s mo pos neg = Inl e \<and> is_Exception e \<and>
      print_error rt e = Some e' \<longrightarrow> analyze_sentiment rt s mo pos neg = Inl e'"
    by (simp add: analyze_sentiment_def)
  have c7: "analyze_sentiment_body rt s mo pos neg = Inr r \<longrightarrow>
      analyze_sentiment rt s mo pos neg = Inr r \<and> sentiment r \<noteq> Error"
    by (auto simp: analyze_sentiment_def body_sentiment sentiment_of_not_Error)
  have c8: "analyze_sentiment rt s mo pos neg = Inr r \<and> sentiment r = Error \<longrightarrow> r = ?err"
  proof
    assume h: "analyze_sentiment rt s mo pos neg = Inr r \<and> sentiment r = Error"
    then have "analyze_sentiment_body rt s mo pos neg = Inr r \<or> r = error_result"
      using analyze_sentiment_Inr by blast
    moreover have "analyze_sentiment_body rt s mo pos neg \<noteq> Inr r"
      using h body_sentiment sentiment_of_not_Error by metis
    ultimately show "r = ?err" by (simp add: err)
  qed
  from c1 c2 c3 c4 c5 c6 c7 c8 show ?thesis by (intro conjI)
qed

theorem analyze_sentiment_fail_soft_witness:
  "analyze_sentiment (demo_runtime\<lparr>tokenize := (\<lambda>s. Inl TokenizerError)\<rparr>) iyi demo_morphology
       [iyi \<mapsto> 1] [kotu \<mapsto> 1] =
     Inr \<lparr>sentiment = Error, score = 0, confidence = 0,
          feats = \<lparr>predicate = None, positive_words = None, negative_words = None\<rparr>,
          predicate_analysis = None\<rparr> \<and>
   analyze_sentiment demo_runtime iyi failing_morphology [iyi \<mapsto> 1] [kotu \<mapsto> 1] =
     Inr \<lparr>sentiment = Error, score = 0, confidence = 0,
          feats = \<lparr>predicate = None, positive_words = None, negative_words = None\<rparr>,
          predicate_analysis = None\<rparr> \<and>
   analyze_sentiment demo_runtime iyi malformed_morphology [iyi \<mapsto> 1] [kotu \<mapsto> 1] =
     Inr \<lparr>sentiment = Error, score = 0, confidence = 0,
          feats = \<lparr>predicate = None, positive_words = None, negative_words = None\<rparr>,
          predicate_analysis = None\<rparr> \<and>
   analyze_sentiment demo_runtime iyi interrupted_morphology [iyi \<mapsto> 1] [kotu \<mapsto> 1] =
     Inl KeyboardInterrupt \<and>
   analyze_sentiment (demo_runtime\<lparr>print_error := (\<lambda>e. Some OSError)\<rparr>) iyi failing_morphology
       [iyi \<mapsto> 1] [kotu \<mapsto> 1] = Inl OSError \<and>
   analyze_sentiment demo_runtime iyi demo_morphology [iyi \<mapsto> 1] [kotu \<mapsto> 1] =
     Inr \<lparr>sentiment = Positive, score = 1, confidence = 1,
          feats = \<lparr>predicate = None, positive_words = Some [iyi], negative_words = None\<rparr>,
          predicate_analysis = None\<rparr>"
proof -
  let ?rt = "demo_runtime\<lparr>tokenize := (\<lambda>s. Inl TokenizerError)\<rparr>"
  let ?rp = "demo_runtime\<lparr>print_error := (\<lambda>e. Some OSError)\<rparr>"
  let ?err = "\<lparr>sentiment = Error, score = 0, confidence = 0,
          feats = \<lparr>predicate = None, positive_words = None, negative_words = None\<rparr>,
          predicate_analysis = None\<rparr>"
  let ?good = "\<lparr>sentiment = Positive, score = 1, confidence = 1,
          feats = \<lparr>predicate = None, positive_words = Some [iyi], negative_words = None\<rparr>,
          predicate_analysis = None\<rparr>"
  have t: "tokenize ?rt (preprocess_text ?rt iyi) = Inl TokenizerError \<and>
           is_Exception TokenizerError \<and> print_error ?rt TokenizerError = None"
    by (simp add: demo_runtime_def)
  have r: "tokenize demo_runtime (preprocess_text demo_runtime iyi) = Inr [iyi]"
    by (simp add: fixture_defs preprocess_text_def)
  have k: "tokens_of demo_runtime [iyi] = [iyi]"
    by (simp add: fixture_defs tokens_of_def)
  have m: "failing_morphology (join_space (tokens_of demo_runtime [iyi])) = Inl MorphologyError \<and>
           is_Exception MorphologyError \<and> print_error demo_runtime MorphologyError = None"
    by (simp add: failing_morphology_def demo_runtime_def)
  have b: "malformed_morphology (join_space (tokens_of demo_runtime [iyi])) =
             Inr [\<lparr>item = None, as_text = iyi\<rparr>] \<and>
           \<not> well_formed [\<lparr>item = None, as_text = iyi\<rparr>] \<and>
           print_error demo_runtime AttributeError = None"
  proof (intro conjI)
    show "malformed_morphology (join_space (tokens_of demo_runtime [iyi])) =
            Inr [\<lparr>item = None, as_text = iyi\<rparr>]"
      by (simp add: k malformed_morphology_def)
    show "\<not> well_formed [\<lparr>item = None, as_text = iyi\<rparr>]"
      by (simp add: well_formed_def)
    show "print_error demo_runtime AttributeError = None"
      by (simp add: demo_runtime_def)
  qed
  have i: "analyze_sentiment_body demo_runtime iyi interrupted_morphology
             [iyi \<mapsto> 1] [kotu \<mapsto> 1] = Inl KeyboardInterrupt \<and>
           \<not> is_Exception KeyboardInterrupt"
    by (simp add: analyze_sentiment_body_def r interrupted_morphology_def)
  have p: "analyze_sentiment_body ?rp iyi failing_morphology [iyi \<mapsto> 1] [kotu \<mapsto> 1] =
             Inl MorphologyError \<and>
           is_Exception MorphologyError \<and> print_error ?rp MorphologyError = Some OSError"
    by (simp add: analyze_sentiment_body_def failing_morphology_def demo_runtime_def)
  have g: "analyze_sentiment_body demo_runtime iyi demo_morphology [iyi \<mapsto> 1] [kotu \<mapsto> 1] =
     Inr ?good"
    by (simp add: analyze_sentiment_body_def r k)
       (simp add: fixture_defs model_defs)
  note T = analyze_sentiment_fail_soft
  have w1: "analyze_sentiment ?rt iyi demo_morphology [iyi \<mapsto> 1] [kotu \<mapsto> 1] = Inr ?err"
    using T[where rt = ?rt and s = iyi and mo = demo_morphology and pos = "[iyi \<mapsto> 1]"
              and neg = "[kotu \<mapsto> 1]" and e = TokenizerError] t
    by blast
  have w2: "analyze_sentiment demo_runtime iyi failing_morphology [iyi \<mapsto> 1] [kotu \<mapsto> 1] =
              Inr ?err"
    using T[where rt = demo_runtime and s = iyi and mo = failing_morphology
              and pos = "[iyi \<mapsto> 1]" and neg = "[kotu \<mapsto> 1]" and e = MorphologyError
              and raw = "[iyi]"] r m
    by blast
  have w3: "analyze_sentiment demo_runtime iyi malformed_morphology [iyi \<mapsto> 1] [kotu \<mapsto> 1] =
              Inr ?err"
    using T[where rt = demo_runtime and s = iyi and mo = malformed_morphology
              and pos = "[iyi \<mapsto> 1]" and neg = "[kotu \<mapsto> 1]" and raw = "[iyi]"
              and results = "[\<lparr>item = None, as_text = iyi\<rparr>]"] r b
    by blast
  have w4: "analyze_sentiment demo_runtime iyi interrupted_morphology [iyi \<mapsto> 1] [kotu \<mapsto> 1] =
              Inl KeyboardInterrupt"
    using T[where rt = demo_runtime and s = iyi and mo = interrupted_morphology
              and pos = "[iyi \<mapsto> 1]" and neg = "[kotu \<mapsto> 1]" and e = KeyboardInterrupt] i
    by blast
  have w5: "analyze_sentiment ?rp iyi failing_morphology [iyi \<mapsto> 1] [kotu \<mapsto> 1] = Inl OSError"
    using T[where rt = ?rp and s = iyi and mo = failing_morphology
              and pos = "[iyi \<mapsto> 1]" and neg = "[kotu \<mapsto> 1]" and e = MorphologyError
              and e' = OSError] p
    by blast
  have w6: "analyze_sentiment demo_runtime iyi demo_morphology [iyi \<mapsto> 1] [kotu \<mapsto> 1] =
              Inr ?good"
    using T[where rt = demo_runtime and s = iyi and mo = demo_morphology
              and pos = "[iyi \<mapsto> 1]" and neg = "[kotu \<mapsto> 1]" and r = ?good] g
    by blast
  from w1 w2 w3 w4 w5 w6 show ?thesis by (intro conjI)
qed

text \<open>
  Claim C3. When the adapter yields well-formed analyses none of whose looked-up roots
  (the root, or the normalized form as a fallback, lowercased) is a key of either
  lexicon, \<open>analyze_sentiment\<close> returns a result with confidence 0, sentiment \<open>Neutral\<close> and
  score 0.
\<close>

theorem no_match_is_neutral:
  assumes "adapter_output rt mo s = Inr (tokens, results)"
    and "well_formed results"
    and "\<forall>a \<in> set results.
           pos (analysis_root rt a) = None \<and> neg (analysis_root rt a) = None"
  shows "\<exists>r. analyze_sentiment rt s mo pos neg = Inr r \<and>
             confidence r = 0 \<and> sentiment r = Neutral \<and> score r = 0"
proof -
  from analyze_sentiment_wf[OF assms(1,2), of pos neg]
  obtain m info where
    "analyze_sentiment rt s mo pos neg =
       Inr \<lparr>sentiment = sentiment_of (m * base_score rt pos neg results),
             score = m * base_score rt pos neg results,
             confidence = (if tokens \<noteq> [] then of_nat (match_count rt pos neg results) / of_nat (length tokens) else 0),
             feats = (initial_features info)
               \<lparr>positive_words :=
                  dd_extend None (filter (\<lambda>r. pos r \<noteq> None) (map (analysis_root rt) results)),
                negative_words :=
                  dd_extend None (filter (\<lambda>r. pos r = None \<and> neg r \<noteq> None) (map (analysis_root rt) results))\<rparr>,
             predicate_analysis = info\<rparr>"
    by blast
  then show ?thesis
    by (simp add: no_match_base_score[OF assms(3)] sentiment_of_def)
qed

theorem no_match_is_neutral_witness:
  "\<exists>r. analyze_sentiment demo_runtime (str_lit ''bir film'') demo_morphology
          [iyi \<mapsto> 1] [kotu \<mapsto> 1] = Inr r \<and>
       confidence r = 0 \<and> sentiment r = Neutral \<and> score r = 0"
proof -
  let ?rs = "[analyse_word (str_lit ''bir''), analyse_word (str_lit ''film'')]"
  have wf: "well_formed ?rs"
    by (simp add: well_formed_def analyse_word_def)
  have nm: "\<forall>a \<in> set ?rs. [iyi \<mapsto> 1] (analysis_root demo_runtime a) = None \<and>
              [kotu \<mapsto> (1::int)] (analysis_root demo_runtime a) = None"
    by (simp add: analysis_root_def lexical_root_def py_or_def fixture_defs)
  show ?thesis
    using no_match_is_neutral[OF demo_adapter_film wf nm] .
qed

text \<open>
  Claim C4. For well-formed analyses and any two lexicons, the scoring loop run with
  \<open>predicate_multiplier = -1\<close> yields the negation of the score it yields with
  \<open>predicate_multiplier = +1\<close>, with the same match count and features. The scan returns
  the multiplier 1 or -1, and -1 exactly when the predicate it selected is negated, so the
  score of the function is the score under \<open>+1\<close> or its negation. The scan stops at the
  last verb-tagged analysis of the sentence: the analyses before it have no influence on
  its result, so at most one flip is applied.
\<close>

theorem negation_flips_score_once:
  assumes "well_formed results"
  shows "(\<exists>s c f m info r.
            score_loop rt pos neg 1 results (0, 0, initial_features info) = Inr (s, c, f) \<and>
            score_loop rt pos neg (- 1) results (0, 0, initial_features info) = Inr (- s, c, f) \<and>
            predicate_scan (rev results) (1, None) = Inr (m, info) \<and>
            (m = 1 \<or> m = - 1) \<and>
            (m = - 1 \<longleftrightarrow> (\<exists>p. info = Some p \<and> pi_is_negative p)) \<and>
            score_analyses rt tokens results pos neg = Inr r \<and>
            score r = (if m = - 1 then - s else s)) \<and>
         (\<forall>before v after.
            results = before @ [v] @ after \<and> verb_tagged v \<and>
            list_all (\<lambda>a. \<not> verb_tagged a) after \<longrightarrow>
              predicate_scan (rev results) (1, None) = predicate_scan [v] (1, None))"
proof (intro conjI allI impI)
  from score_analyses_wf[OF assms, of rt tokens pos neg]
  obtain m info r where scan: "predicate_scan (rev results) (1, None) = Inr (m, info)"
    and sa: "score_analyses rt tokens results pos neg = Inr r"
    and sc: "score r = m * base_score rt pos neg results"
    by force
  from scan_result[OF scan]
  have m: "(m = 1 \<or> m = - 1) \<and> (m = - 1 \<longleftrightarrow> (\<exists>p. info = Some p \<and> pi_is_negative p))"
    by (auto split: if_splits)
  let ?f = "(initial_features info)
               \<lparr>positive_words :=
                  dd_extend (positive_words (initial_features info))
                    (filter (\<lambda>r. pos r \<noteq> None) (map (analysis_root rt) results)),
                negative_words :=
                  dd_extend (negative_words (initial_features info))
                    (filter (\<lambda>r. pos r = None \<and> neg r \<noteq> None) (map (analysis_root rt) results))\<rparr>"
  have l1: "score_loop rt pos neg 1 results (0, 0, initial_features info) =
              Inr (base_score rt pos neg results, match_count rt pos neg results, ?f)"
    by (simp add: score_loop_wf[OF assms])
  have l2: "score_loop rt pos neg (- 1) results (0, 0, initial_features info) =
              Inr (- base_score rt pos neg results, match_count rt pos neg results, ?f)"
    by (simp add: score_loop_wf[OF assms])
  from m sc have "score r = (if m = - 1 then - base_score rt pos neg results
                             else base_score rt pos neg results)"
    by auto
  with l1 l2 scan m sa
  show "\<exists>s c f m info r.
            score_loop rt pos neg 1 results (0, 0, initial_features info) = Inr (s, c, f) \<and>
            score_loop rt pos neg (- 1) results (0, 0, initial_features info) = Inr (- s, c, f) \<and>
            predicate_scan (rev results) (1, None) = Inr (m, info) \<and>
            (m = 1 \<or> m = - 1) \<and>
            (m = - 1 \<longleftrightarrow> (\<exists>p. info = Some p \<and> pi_is_negative p)) \<and>
            score_analyses rt tokens results pos neg = Inr r \<and>
            score r = (if m = - 1 then - s else s)"
    by blast
next
  fix before v after
  assume h: "results = before @ [v] @ after \<and> verb_tagged v \<and>
            list_all (\<lambda>a. \<not> verb_tagged a) after"
  then have nv: "list_all (\<lambda>a. \<not> verb_tagged a) (rev after)"
    by (simp add: list_all_iff)
  from h have v: "verb_tagged v" by simp
  from h have "rev results = rev after @ (v # rev before)" by simp
  then have "predicate_scan (rev results) (1, None) = predicate_scan (v # rev before) (1, None)"
    by (simp only: scan_skip[OF nv])
  also have "\<dots> = predicate_scan [v] (1, None)"
  proof (cases "item v")
    case None
    then show ?thesis by (simp only: scan_verb_malformed[OF v None])
  next
    case (Some it)
    then show ?thesis by (simp only: scan_verb[OF v Some])
  qed
  finally show "predicate_scan (rev results) (1, None) = predicate_scan [v] (1, None)" .
qed

text \<open>
  An instance with two negated verbs: the scan returns -1, one flip and not two.
\<close>

theorem negation_flips_score_once_witness:
  "well_formed [analyse_word degil, analyse_word kotu, analyse_word degil] \<and>
   (\<exists>s c f m info r.
      score_loop demo_runtime [iyi \<mapsto> 1] [kotu \<mapsto> 1] 1
        [analyse_word degil, analyse_word kotu, analyse_word degil]
        (0, 0, initial_features info) = Inr (s, c, f) \<and>
      score_loop demo_runtime [iyi \<mapsto> 1] [kotu \<mapsto> 1] (- 1)
        [analyse_word degil, analyse_word kotu, analyse_word degil]
        (0, 0, initial_features info) = Inr (- s, c, f) \<and>
      predicate_scan (rev [analyse_word degil, analyse_word kotu, analyse_word degil]) (1, None) =
        Inr (m, info) \<and>
      (m = 1 \<or> m = - 1) \<and>
      (m = - 1 \<longleftrightarrow> (\<exists>p. info = Some p \<and> pi_is_negative p)) \<and>
      score_analyses demo_runtime [degil, kotu, degil]
        [analyse_word degil, analyse_word kotu, analyse_word degil]
        [iyi \<mapsto> 1] [kotu \<mapsto> 1] = Inr r \<and>
      score r = (if m = - 1 then - s else s)) \<and>
   predicate_scan (rev [analyse_word degil, analyse_word kotu, analyse_word degil]) (1, None) =
     predicate_scan [analyse_word degil] (1, None) \<and>
   predicate_scan [analyse_word degil] (1, None) =
     Inr (- 1, Some \<lparr>pi_root = Some degil, pi_is_negative = True,
                     pi_full_analysis = degil @ str_lit '':Verb+Neg''\<rparr>)"
proof -
  let ?rs = "[analyse_word degil, analyse_word kotu, analyse_word degil]"
  have wf: "well_formed ?rs"
    by (simp add: well_formed_def analyse_word_def)
  have v: "?rs = [analyse_word degil, analyse_word kotu] @ [analyse_word degil] @ [] \<and>
           verb_tagged (analyse_word degil) \<and> list_all (\<lambda>a. \<not> verb_tagged a) []"
    by (simp add: verb_tagged_def fixture_defs)
  note T = negation_flips_score_once[OF wf, of demo_runtime "[iyi \<mapsto> 1]" "[kotu \<mapsto> 1]"
      "[degil, kotu, degil]"]
  from T have a: "\<exists>s c f m info r.
      score_loop demo_runtime [iyi \<mapsto> 1] [kotu \<mapsto> 1] 1 ?rs
        (0, 0, initial_features info) = Inr (s, c, f) \<and>
      score_loop demo_runtime [iyi \<mapsto> 1] [kotu \<mapsto> 1] (- 1) ?rs
        (0, 0, initial_features info) = Inr (- s, c, f) \<and>
      predicate_scan (rev ?rs) (1, None) = Inr (m, info) \<and>
      (m = 1 \<or> m = - 1) \<and>
      (m = - 1 \<longleftrightarrow> (\<exists>p. info = Some p \<and> pi_is_negative p)) \<and>
      score_analyses demo_runtime [degil, kotu, degil] ?rs [iyi \<mapsto> 1] [kotu \<mapsto> 1] = Inr r \<and>
      score r = (if m = - 1 then - s else s)"
    by (rule conjunct1)
  from T have "\<forall>before v after.
            ?rs = before @ [v] @ after \<and> verb_tagged v \<and>
            list_all (\<lambda>a. \<not> verb_tagged a) after \<longrightarrow>
              predicate_scan (rev ?rs) (1, None) = predicate_scan [v] (1, None)"
    by (rule conjunct2)
  with v have b: "predicate_scan (rev ?rs) (1, None) = predicate_scan [analyse_word degil] (1, None)"
    by blast
  have c: "predicate_scan [analyse_word degil] (1, None) =
     Inr (- 1, Some \<lparr>pi_root = Some degil, pi_is_negative = True,
                     pi_full_analysis = degil @ str_lit '':Verb+Neg''\<rparr>)"
    by (simp add: fixture_defs)
  from wf a b c show ?thesis by (intro conjI)
qed

text \<open>
  Claim C5. With all four counts 0, accuracy, precision, recall and F1 are 0; and for
  any four natural numbers the computation of lines 64-68 returns the four metrics,
  never a \<open>ZeroDivisionError\<close>: every ratio whose denominator is 0 is 0.
\<close>

theorem metrics_never_divide_by_zero:
  "compute_metrics 0 0 0 0 = Inr \<lparr>accuracy = 0, precision = 0, recall = 0, f1 = 0\<rparr> \<and>
   compute_metrics dp dn yp yn =
     Inr \<lparr>accuracy = (if dp + dn + yp + yn = 0 then 0
                      else of_nat (dp + dn) / of_nat (dp + dn + yp + yn)),
          precision = (if dp + yp = 0 then 0 else of_nat dp / of_nat (dp + yp)),
          recall = (if dp + yn = 0 then 0 else of_nat dp / of_nat (dp + yn)),
          f1 = (if dp = 0 then 0
                else 2 * (of_nat dp / of_nat (dp + yp)) * (of_nat dp / of_nat (dp + yn)) /
                     (of_nat dp / of_nat (dp + yp) + of_nat dp / of_nat (dp + yn)))\<rparr>"
proof
  show "compute_metrics 0 0 0 0 = Inr \<lparr>accuracy = 0, precision = 0, recall = 0, f1 = 0\<rparr>"
    by (simp add: compute_metrics_def)
next
  show "compute_metrics dp dn yp yn =
     Inr \<lparr>accuracy = (if dp + dn + yp + yn = 0 then 0
                      else of_nat (dp + dn) / of_nat (dp + dn + yp + yn)),
          precision = (if dp + yp = 0 then 0 else of_nat dp / of_nat (dp + yp)),
          recall = (if dp + yn = 0 then 0 else of_nat dp / of_nat (dp + yn)),
          f1 = (if dp = 0 then 0
                else 2 * (of_nat dp / of_nat (dp + yp)) * (of_nat dp / of_nat (dp + yn)) /
                     (of_nat dp / of_nat (dp + yp) + of_nat dp / of_nat (dp + yn)))\<rparr>"
  proof (cases "dp = 0")
    case True
    then show ?thesis
      by (simp add: compute_metrics_def Let_def truediv_def)
  next
    case False
    then have pos: "(0::rat) < of_nat dp / of_nat (dp + yp) + of_nat dp / of_nat (dp + yn)"
      by (simp add: add_pos_pos)
    have "(of_nat dp :: rat) + of_nat dn + of_nat yp + of_nat yn \<noteq> 0"
      using False by (metis of_nat_add of_nat_eq_0_iff add_is_0)
    with False pos show ?thesis
      by (simp add: compute_metrics_def Let_def truediv_def)
  qed
qed

text \<open>
  Claim C6. For every result returned by \<open>analyze_sentiment\<close> whose sentiment is not
  \<open>Error\<close>, the sentiment is \<open>Positive\<close> exactly when the score is positive, \<open>Negative\<close>
  exactly when it is negative and \<open>Neutral\<close> exactly when it is 0.
\<close>

theorem sentiment_sign:
  assumes "analyze_sentiment rt s mo pos neg = Inr r" and "sentiment r \<noteq> Error"
  shows "(sentiment r = Positive \<longleftrightarrow> score r > 0) \<and>
         (sentiment r = Negative \<longleftrightarrow> score r < 0) \<and>
         (sentiment r = Neutral \<longleftrightarrow> score r = 0)"
proof -
  from analyze_sentiment_Inr[OF assms(1)] assms(2)
  have "analyze_sentiment_body rt s mo pos neg = Inr r"
    by (auto simp: error_result_def)
  then have "sentiment r = sentiment_of (score r)" by (rule body_sentiment)
  then show ?thesis by (simp add: sentiment_of_def)
qed

theorem sentiment_sign_witness:
  "analyze_sentiment demo_runtime iyi demo_morphology [iyi \<mapsto> 1] [kotu \<mapsto> 1] =
     Inr \<lparr>sentiment = Positive, score = 1, confidence = 1,
          feats = \<lparr>predicate = None, positive_words = Some [iyi], negative_words = None\<rparr>,
          predicate_analysis = None\<rparr> \<and>
   sentiment \<lparr>sentiment = Positive, score = 1, confidence = 1,
          feats = \<lparr>predicate = None, positive_words = Some [iyi], negative_words = None\<rparr>,
          predicate_analysis = None\<rparr> \<noteq> Error \<and>
   (sentiment \<lparr>sentiment = Positive, score = 1, confidence = 1,
          feats = \<lparr>predicate = None, positive_words = Some [iyi], negative_words = None\<rparr>,
          predicate_analysis = None\<rparr> = Positive \<longleftrightarrow>
    score \<lparr>sentiment = Positive, score = 1, confidence = 1,
          feats = \<lparr>predicate = None, positive_words = Some [iyi], negative_words = None\<rparr>,
          predicate_analysis = None\<rparr> > 0) \<and>
   (sentiment \<lparr>sentiment = Positive, score = 1, confidence = 1,
          feats = \<lparr>predicate = None, positive_words = Some [iyi], negative_words = None\<rparr>,
          predicate_analysis = None\<rparr> = Negative \<longleftrightarrow>
    score \<lparr>sentiment = Positive, score = 1, confidence = 1,
          feats = \<lparr>predicate = None, positive_words = Some [iyi], negative_words = None\<rparr>,
          predicate_analysis = None\<rparr> < 0) \<and>
   (sentiment \<lparr>sentiment = Positive, score = 1, confidence = 1,
          feats = \<lparr>predicate = None, positive_words = Some [iyi], negative_words = None\<rparr>,
          predicate_analysis = None\<rparr> = Neutral \<longleftrightarrow>
    score \<lparr>sentiment = Positive, score = 1, confidence = 1,
          feats = \<lparr>predicate = None, positive_words = Some [iyi], negative_words = None\<rparr>,
          predicate_analysis = None\<rparr> = 0)"
proof -
  let ?r = "\<lparr>sentiment = Positive, score = 1, confidence = 1,
          feats = \<lparr>predicate = None, positive_words = Some [iyi], negative_words = None\<rparr>,
          predicate_analysis = None\<rparr>"
  have ne: "sentiment ?r \<noteq> Error" by simp
  from sentiment_sign[OF demo_iyi_result ne] demo_iyi_result ne
  show ?thesis by (intro conjI) blast+
qed

text \<open>
  Claim C7. Under the contract of the adapter (one analysis per token), the confidence
  of every result of \<open>analyze_sentiment\<close> whose sentiment is not \<open>Error\<close> is the number of
  lexicon matches divided by the number of tokens, is 0 when the sentence has no tokens,
  and lies in the interval from 0 to 1.
\<close>

theorem confidence_is_match_ratio:
  assumes "adapter_output rt mo s = Inr (tokens, results)"
    and "per_token tokens results"
    and "analyze_sentiment rt s mo pos neg = Inr r"
    and "sentiment r \<noteq> Error"
  shows "confidence r =
           (if tokens = [] then 0
            else of_nat (match_count rt pos neg results) / of_nat (length tokens)) \<and>
         (tokens = [] \<longrightarrow> confidence r = 0) \<and>
         0 \<le> confidence r \<and> confidence r \<le> 1"
proof -
  have wf: "well_formed results"
  proof (rule ccontr)
    assume "\<not> well_formed results"
    from body_malformed[OF assms(1) this, of pos neg] analyze_sentiment_Inr[OF assms(3)] assms(4)
    show False by (auto simp: error_result_def)
  qed
  from analyze_sentiment_wf[OF assms(1) wf, of pos neg] assms(3)
  have c: "confidence r =
           (if tokens = [] then 0
            else of_nat (match_count rt pos neg results) / of_nat (length tokens))"
    by auto
  have "match_count rt pos neg results \<le> length results"
    unfolding match_count_def
    by (metis length_filter_le length_map)
  with assms(2) have "match_count rt pos neg results \<le> length tokens"
    by (simp add: per_token_def)
  then have "(of_nat (match_count rt pos neg results) :: rat) \<le> of_nat (length tokens)"
    by (simp only: of_nat_le_iff)
  then have "(if tokens = [] then (0::rat)
            else of_nat (match_count rt pos neg results) / of_nat (length tokens)) \<le> 1"
    by (simp add: divide_le_eq_1)
  with c show ?thesis by simp
qed

lemma demo_adapter_empty:
  "adapter_output demo_runtime demo_morphology [] = Inr ([], [])"
  by (simp add: adapter_output_def preprocess_text_def tokens_of_def fixture_defs)

lemma demo_empty_result:
  "analyze_sentiment demo_runtime [] demo_morphology [iyi \<mapsto> 1] [kotu \<mapsto> 1] =
     Inr \<lparr>sentiment = Neutral, score = 0, confidence = 0, feats = no_features,
          predicate_analysis = None\<rparr>"
  by (simp add: analyze_sentiment_def body_adapter demo_adapter_empty)
     (simp add: fixture_defs model_defs)

theorem confidence_is_match_ratio_witness:
  "per_token [iyi] [analyse_word iyi] \<and>
   analyze_sentiment demo_runtime iyi demo_morphology [iyi \<mapsto> 1] [kotu \<mapsto> 1] =
     Inr \<lparr>sentiment = Positive, score = 1, confidence = 1,
          feats = \<lparr>predicate = None, positive_words = Some [iyi], negative_words = None\<rparr>,
          predicate_analysis = None\<rparr> \<and>
   (1::rat) =
     of_nat (match_count demo_runtime [iyi \<mapsto> 1] [kotu \<mapsto> 1] [analyse_word iyi]) /
     of_nat (length [iyi]) \<and>
   per_token [] [] \<and>
   analyze_sentiment demo_runtime [] demo_morphology [iyi \<mapsto> 1] [kotu \<mapsto> 1] =
     Inr \<lparr>sentiment = Neutral, score = 0, confidence = 0, feats = no_features,
          predicate_analysis = None\<rparr>"
proof -
  let ?r = "\<lparr>sentiment = Positive, score = 1, confidence = 1,
          feats = \<lparr>predicate = None, positive_words = Some [iyi], negative_words = None\<rparr>,
          predicate_analysis = None\<rparr>"
  let ?z = "\<lparr>sentiment = Neutral, score = 0, confidence = 0, feats = no_features,
          predicate_analysis = None\<rparr>"
  have pt: "per_token [iyi] [analyse_word iyi]" and pe: "per_token [] []"
    by (simp_all add: per_token_def)
  have ne: "sentiment ?r \<noteq> Error" and nz: "sentiment ?z \<noteq> Error" by simp_all
  from confidence_is_match_ratio[OF demo_adapter_iyi pt demo_iyi_result ne]
  have a: "(1::rat) =
     of_nat (match_count demo_runtime [iyi \<mapsto> 1] [kotu \<mapsto> 1] [analyse_word iyi]) /
     of_nat (length [iyi])"
    by simp
  from confidence_is_match_ratio[OF demo_adapter_empty pe demo_empty_result nz]
  have "confidence ?z = 0" by simp
  with pt pe a demo_iyi_result demo_empty_result show ?thesis by (intro conjI)
qed

text \<open>
  Claim C8. Scenario B: the negative lexicon is \<open>{kotu: 1}\<close>, the analyses are well
  formed and end with an analysis tagged both \<open>Verb\<close> and \<open>Neg\<close>, exactly one of them has
  the looked-up root \<open>kotu\<close>, and none has a root in the positive lexicon. Then the scan
  returns the multiplier -1, an analysis with root \<open>kotu\<close> contributes
  \<open>1 * (-1) * (-1)\<close> to the score, and \<open>analyze_sentiment\<close> returns a result with score 1
  and sentiment \<open>Positive\<close>.
\<close>

theorem double_negative_scenario:
  assumes "adapter_output rt mo s = Inr (tokens, before @ [v])"
    and "well_formed (before @ [v])"
    and "verb_tagged v" and "neg_tagged v"
    and "\<forall>a \<in> set (before @ [v]). pos (analysis_root rt a) = None"
    and "length (filter (\<lambda>a. analysis_root rt a = kotu) (before @ [v])) = 1"
  shows "(\<exists>info. predicate_scan (rev (before @ [v])) (1, None) = Inr (- 1, info)) \<and>
         (\<forall>a it sc conf found. item a = Some it \<and> lexical_root rt it = kotu \<longrightarrow>
            (\<exists>found'. score_step rt pos [kotu \<mapsto> 1] (- 1) a (sc, conf, found) =
               Inr (sc + 1 * (- 1) * (- 1), conf + 1, found'))) \<and>
         (\<exists>r. analyze_sentiment rt s mo pos [kotu \<mapsto> 1] = Inr r \<and>
              score r = 1 \<and> sentiment r = Positive)"
proof (intro conjI allI impI)
  from assms(2) obtain it where it: "item v = Some it"
    by (auto simp: well_formed_def)
  have scan: "predicate_scan (rev (before @ [v])) (1, None) = Inr (- 1, Some (predicate_of v it))"
    using scan_verb[OF assms(3) it, of "rev before" 1 None] assms(4) by simp
  then show "\<exists>info. predicate_scan (rev (before @ [v])) (1, None) = Inr (- 1, info)"
    by blast
  from analyze_sentiment_wf[OF assms(1,2), of pos "[kotu \<mapsto> 1]"] scan
  obtain r where r: "analyze_sentiment rt s mo pos [kotu \<mapsto> 1] = Inr r"
    and sc: "score r = - 1 * base_score rt pos [kotu \<mapsto> 1] (before @ [v])"
    and se: "sentiment r =
              sentiment_of (- 1 * base_score rt pos [kotu \<mapsto> 1] (before @ [v]))"
    by auto
  have "base_score rt pos [kotu \<mapsto> 1] (before @ [v]) =
          - int (length (filter (\<lambda>a. analysis_root rt a = kotu) (before @ [v])))"
    by (rule single_negative_base_score[OF assms(5)])
  also have "\<dots> = - 1" by (simp only: assms(6) of_nat_1)
  finally have bs: "base_score rt pos [kotu \<mapsto> 1] (before @ [v]) = - 1" .
  from sc bs have "score r = 1" by simp
  moreover from se bs have "sentiment r = Positive"
    by (simp add: sentiment_of_def)
  ultimately show "\<exists>r. analyze_sentiment rt s mo pos [kotu \<mapsto> 1] = Inr r \<and>
              score r = 1 \<and> sentiment r = Positive"
    using r by blast
next
  fix a :: analysis and it :: dict_item and sc :: int and conf :: nat and found :: features
  assume h: "item a = Some it \<and> lexical_root rt it = kotu"
  from assms(6) obtain b where b: "b \<in> set (before @ [v])" and rb: "analysis_root rt b = kotu"
    by (metis (mono_tags, lifting) filter_False length_0_conv zero_neq_one)
  with assms(5) have "pos kotu = None" by metis
  with h show "\<exists>found'. score_step rt pos [kotu \<mapsto> 1] (- 1) a (sc, conf, found) =
               Inr (sc + 1 * (- 1) * (- 1), conf + 1, found')"
    by (simp add: score_step_def)
qed

theorem double_negative_scenario_witness:
  "verb_tagged (analyse_word degil) \<and> neg_tagged (analyse_word degil) \<and>
   predicate_scan (rev ([analyse_word kotu] @ [analyse_word degil])) (1, None) =
     Inr (- 1, Some \<lparr>pi_root = Some degil, pi_is_negative = True,
                     pi_full_analysis = degil @ str_lit '':Verb+Neg''\<rparr>) \<and>
   (\<exists>r. analyze_sentiment demo_runtime (kotu @ [32] @ degil) demo_morphology
            Map.empty [kotu \<mapsto> 1] = Inr r \<and> score r = 1 \<and> sentiment r = Positive)"
proof -
  have ad: "adapter_output demo_runtime demo_morphology (kotu @ [32] @ degil) =
              Inr ([kotu, degil], [analyse_word kotu] @ [analyse_word degil])"
    using demo_adapter_kotu_degil by simp
  have wf: "well_formed ([analyse_word kotu] @ [analyse_word degil])"
    by (simp add: well_formed_def analyse_word_def)
  have vt: "verb_tagged (analyse_word degil)" and nt: "neg_tagged (analyse_word degil)"
    by (simp_all add: verb_tagged_def neg_tagged_def fixture_defs)
  have np: "\<forall>a \<in> set ([analyse_word kotu] @ [analyse_word degil]).
              (Map.empty :: lexicon) (analysis_root demo_runtime a) = None"
    by simp
  have one: "length (filter (\<lambda>a. analysis_root demo_runtime a = kotu)
               ([analyse_word kotu] @ [analyse_word degil])) = 1"
    by (simp add: analysis_root_def lexical_root_def py_or_def fixture_defs)
  have scan: "predicate_scan (rev ([analyse_word kotu] @ [analyse_word degil])) (1, None) =
     Inr (- 1, Some \<lparr>pi_root = Some degil, pi_is_negative = True,
                     pi_full_analysis = degil @ str_lit '':Verb+Neg''\<rparr>)"
    by (simp add: fixture_defs)
  from double_negative_scenario[OF ad wf vt nt np one] vt nt scan
  show ?thesis by simp
qed

text \<open>
  Claim C9. \<open>evaluate_model\<close> appends exactly one entry to \<open>predictions\<close> for every test
  case, whatever its prediction, in the order of the input; the entry carries the text,
  the true label, the predicted sentiment, the confidence and the features of the result
  of \<open>analyze_sentiment\<close> on that sentence. The evaluation returns exactly when every call
  of \<open>analyze_sentiment\<close> returns: when the calls return the results \<open>analyses\<close>, the
  evaluation returns and \<open>predictions\<close> is the list of these entries, and an evaluation
  that returns has such a list of results behind it.
\<close>

theorem predictions_one_per_case:
  "(map (\<lambda>(sentence, true_label). analyze_sentiment rt sentence mo pos neg) test_data =
      map Inr analyses \<longrightarrow>
      (\<exists>res. evaluate_model rt test_data mo pos neg = Inr res \<and>
         predictions res =
           map2 (\<lambda>(sentence, true_label) analysis.
                   \<lparr>p_text = sentence, p_true_label = true_label,
                    p_predicted = sentiment analysis,
                    p_confidence = confidence analysis,
                    p_features = feats analysis\<rparr>) test_data analyses \<and>
         length (predictions res) = length test_data)) \<and>
   (evaluate_model rt test_data mo pos neg = Inr res \<longrightarrow>
      (\<exists>analyses.
         map (\<lambda>(sentence, true_label). analyze_sentiment rt sentence mo pos neg) test_data =
           map Inr analyses \<and>
         predictions res =
           map2 (\<lambda>(sentence, true_label) analysis.
                   \<lparr>p_text = sentence, p_true_label = true_label,
                    p_predicted = sentiment analysis,
                    p_confidence = confidence analysis,
                    p_features = feats analysis\<rparr>) test_data analyses \<and>
         length (predictions res) = length test_data))"
proof -
  let ?calls = "\<lambda>rs. map (\<lambda>(sentence, true_label). analyze_sentiment rt sentence mo pos neg)
                  test_data = map Inr rs"
  let ?entries = "\<lambda>rs. map2 (\<lambda>(sentence, true_label) analysis.
                   \<lparr>p_text = sentence, p_true_label = true_label,
                    p_predicted = sentiment analysis,
                    p_confidence = confidence analysis,
                    p_features = feats analysis\<rparr>) test_data rs"
  have entry: "(\<lambda>(s, l) a. prediction_entry s l a) =
               (\<lambda>(sentence, true_label) analysis.
                   \<lparr>p_text = sentence, p_true_label = true_label,
                    p_predicted = sentiment analysis,
                    p_confidence = confidence analysis,
                    p_features = feats analysis\<rparr>)"
    by (simp add: prediction_entry_def fun_eq_iff)
  have fwd: "\<exists>res. evaluate_model rt test_data mo pos neg = Inr res \<and>
               predictions res = ?entries rs \<and> length (predictions res) = length test_data"
    if calls: "?calls rs" for rs
  proof -
    from evaluate_loop_returns[OF calls, of initial_results]
    obtain res where ev: "evaluate_model rt test_data mo pos neg = Inr res"
      and p: "predictions res = ?entries rs"
      by (auto simp: evaluate_model_def initial_results_def entry)
    from calls have "length test_data = length rs"
      by (metis length_map)
    with p have "length (predictions res) = length test_data" by simp
    with ev p show ?thesis by blast
  qed
  have bwd: "\<exists>rs. ?calls rs \<and> predictions res = ?entries rs \<and>
               length (predictions res) = length test_data"
    if ev: "evaluate_model rt test_data mo pos neg = Inr res"
  proof -
    from ev have "evaluate_loop rt mo pos neg test_data initial_results = Inr res"
      by (simp add: evaluate_model_def)
    from evaluate_loop_calls[OF this] obtain rs where calls: "?calls rs" by blast
    from fwd[OF calls] ev have "predictions res = ?entries rs"
      and "length (predictions res) = length test_data" by auto
    with calls show ?thesis by blast
  qed
  from fwd[of analyses] bwd show ?thesis by blast
qed

theorem predictions_one_per_case_witness:
  "map (\<lambda>(sentence, true_label).
          analyze_sentiment demo_runtime sentence failing_morphology [iyi \<mapsto> 1] [kotu \<mapsto> 1])
     [(iyi, str_lit ''Pozitif''), (kotu, str_lit ''Negatif'')] =
     map Inr [error_result, error_result] \<and>
   (\<exists>res. evaluate_model demo_runtime [(iyi, str_lit ''Pozitif''), (kotu, str_lit ''Negatif'')]
            failing_morphology [iyi \<mapsto> 1] [kotu \<mapsto> 1] = Inr res \<and>
      predictions res =
        [\<lparr>p_text = iyi, p_true_label = str_lit ''Pozitif'', p_predicted = Error,
          p_confidence = 0, p_features = no_features\<rparr>,
         \<lparr>p_text = kotu, p_true_label = str_lit ''Negatif'', p_predicted = Error,
          p_confidence = 0, p_features = no_features\<rparr>] \<and>
      length (predictions res) = 2)"
proof -
  let ?td = "[(iyi, str_lit ''Pozitif''), (kotu, str_lit ''Negatif'')]"
  have calls: "map (\<lambda>(sentence, true_label).
          analyze_sentiment demo_runtime sentence failing_morphology [iyi \<mapsto> 1] [kotu \<mapsto> 1])
     ?td = map Inr [error_result, error_result]"
    by (simp add: analyze_sentiment_def analyze_sentiment_body_def failing_morphology_def
          demo_runtime_def)
  from predictions_one_per_case[where rt = demo_runtime and test_data = ?td
         and mo = failing_morphology and pos = "[iyi \<mapsto> 1]" and neg = "[kotu \<mapsto> 1]"
         and analyses = "[error_result, error_result]"] calls
  obtain res where "evaluate_model demo_runtime ?td failing_morphology
                      [iyi \<mapsto> 1] [kotu \<mapsto> 1] = Inr res"
    and "predictions res =
           map2 (\<lambda>(sentence, true_label) analysis.
                   \<lparr>p_text = sentence, p_true_label = true_label,
                    p_predicted = sentiment analysis,
                    p_confidence = confidence analysis,
                    p_features = feats analysis\<rparr>) ?td [error_result, error_result]"
    and "length (predictions res) = length ?td"
    by blast
  then have "evaluate_model demo_runtime ?td failing_morphology
                      [iyi \<mapsto> 1] [kotu \<mapsto> 1] = Inr res \<and>
      predictions res =
        [\<lparr>p_text = iyi, p_true_label = str_lit ''Pozitif'', p_predicted = Error,
          p_confidence = 0, p_features = no_features\<rparr>,
         \<lparr>p_text = kotu, p_true_label = str_lit ''Negatif'', p_predicted = Error,
          p_confidence = 0, p_features = no_features\<rparr>] \<and>
      length (predictions res) = 2"
    by (simp add: error_result_def)
  with calls show ?thesis by blast
qed

text \<open>
  Claim C10. A looked-up root that is a key of both lexicons is counted as a positive
  match only: the iteration adds the positive weight times the multiplier to the score,
  increments the match count, appends the root to \<open>positive_words\<close> and leaves
  \<open>negative_words\<close> as it was. In the result that \<open>analyze_sentiment\<close> returns such a root
  occurs in \<open>positive_words\<close> and never in \<open>negative_words\<close>.
\<close>

theorem positive_lookup_takes_precedence:
  assumes "item a = Some it"
    and "pos (lexical_root rt it) = Some w"
    and "neg (lexical_root rt it) = Some w'"
  shows "score_step rt pos neg m a (sc, conf, found) =
           Inr (sc + w * m, conf + 1,
                found\<lparr>positive_words := dd_append (positive_words found) (lexical_root rt it)\<rparr>) \<and>
         negative_words
           (found\<lparr>positive_words := dd_append (positive_words found) (lexical_root rt it)\<rparr>) =
           negative_words found \<and>
         (adapter_output rt mo s = Inr (tokens, results) \<and> well_formed results \<and>
          a \<in> set results \<longrightarrow>
            (\<exists>r. analyze_sentiment rt s mo pos neg = Inr r \<and>
               (\<exists>ws. positive_words (feats r) = Some ws \<and> lexical_root rt it \<in> set ws) \<and>
               (\<forall>ws. negative_words (feats r) = Some ws \<longrightarrow>
                     lexical_root rt it \<notin> set ws)))"
proof (intro conjI impI)
  show "score_step rt pos neg m a (sc, conf, found) =
           Inr (sc + w * m, conf + 1,
                found\<lparr>positive_words := dd_append (positive_words found) (lexical_root rt it)\<rparr>)"
    using assms by (simp add: score_step_def)
  show "negative_words
           (found\<lparr>positive_words := dd_append (positive_words found) (lexical_root rt it)\<rparr>) =
           negative_words found"
    by simp
next
  assume h: "adapter_output rt mo s = Inr (tokens, results) \<and> well_formed results \<and>
          a \<in> set results"
  then have ad: "adapter_output rt mo s = Inr (tokens, results)" and wf: "well_formed results"
    and a: "a \<in> set results" by simp_all
  have ra: "analysis_root rt a = lexical_root rt it"
    using assms(1) by (simp add: analysis_root_def)
  let ?ps = "filter (\<lambda>r. pos r \<noteq> None) (map (analysis_root rt) results)"
  let ?ns = "filter (\<lambda>r. pos r = None \<and> neg r \<noteq> None) (map (analysis_root rt) results)"
  from analyze_sentiment_wf[OF ad wf, of pos neg]
  obtain r where r: "analyze_sentiment rt s mo pos neg = Inr r"
    and pw: "positive_words (feats r) = dd_extend None ?ps"
    and nw: "negative_words (feats r) = dd_extend None ?ns"
    by auto
  have inp: "lexical_root rt it \<in> set ?ps"
    using a ra assms(2) by force
  have "\<exists>ws. dd_extend None ?ps = Some ws \<and> lexical_root rt it \<in> set ws"
  proof (cases ?ps)
    case Nil
    from inp show ?thesis unfolding Nil by simp
  next
    case (Cons p ps)
    from inp show ?thesis unfolding Cons by (simp add: dd_extend_Some)
  qed
  with pw have p: "\<exists>ws. positive_words (feats r) = Some ws \<and> lexical_root rt it \<in> set ws"
    by simp
  have "lexical_root rt it \<notin> set ?ns"
    using assms(2) by simp
  with nw have n: "\<forall>ws. negative_words (feats r) = Some ws \<longrightarrow>
                  lexical_root rt it \<notin> set ws"
    by (auto simp: dd_extend_None split: if_splits)
  from r p n show "\<exists>r. analyze_sentiment rt s mo pos neg = Inr r \<and>
               (\<exists>ws. positive_words (feats r) = Some ws \<and> lexical_root rt it \<in> set ws) \<and>
               (\<forall>ws. negative_words (feats r) = Some ws \<longrightarrow>
                     lexical_root rt it \<notin> set ws)"
    by blast
qed

theorem positive_lookup_takes_precedence_witness:
  "item (analyse_word iyi) = Some \<lparr>root = Some iyi, normalized_form = Some iyi\<rparr> \<and>
   lexical_root demo_runtime \<lparr>root = Some iyi, normalized_form = Some iyi\<rparr> = iyi \<and>
   score_step demo_runtime [iyi \<mapsto> 2] [iyi \<mapsto> 5] 1 (analyse_word iyi) (0, 0, no_features) =
     Inr (0 + 2 * 1, 0 + 1,
          no_features\<lparr>positive_words := dd_append (positive_words no_features) iyi\<rparr>) \<and>
   (\<exists>r. analyze_sentiment demo_runtime iyi demo_morphology [iyi \<mapsto> 2] [iyi \<mapsto> 5] = Inr r \<and>
      (\<exists>ws. positive_words (feats r) = Some ws \<and> iyi \<in> set ws) \<and>
      negative_words (feats r) = None)"
proof -
  let ?it = "\<lparr>root = Some iyi, normalized_form = Some iyi\<rparr>"
  have i: "item (analyse_word iyi) = Some ?it"
    by (simp add: analyse_word_def)
  have l: "lexical_root demo_runtime ?it = iyi"
    by (simp add: lexical_root_def py_or_def fixture_defs)
  have p: "[iyi \<mapsto> 2::int] (lexical_root demo_runtime ?it) = Some 2"
    and n: "[iyi \<mapsto> 5::int] (lexical_root demo_runtime ?it) = Some 5"
    by (simp_all add: l)
  have wf: "well_formed [analyse_word iyi]"
    by (simp add: well_formed_def analyse_word_def)
  have res: "analyze_sentiment demo_runtime iyi demo_morphology [iyi \<mapsto> 2] [iyi \<mapsto> 5] =
     Inr \<lparr>sentiment = Positive, score = 2, confidence = 1,
          feats = \<lparr>predicate = None, positive_words = Some [iyi], negative_words = None\<rparr>,
          predicate_analysis = None\<rparr>"
    by (simp add: analyze_sentiment_def body_adapter demo_adapter_iyi)
       (simp add: fixture_defs model_defs)
  note T = positive_lookup_takes_precedence[where a = "analyse_word iyi" and it = ?it
      and pos = "[iyi \<mapsto> 2]" and neg = "[iyi \<mapsto> 5]" and rt = demo_runtime
      and w = 2 and w' = 5 and m = 1 and sc = 0 and conf = 0 and found = no_features
      and mo = demo_morphology and s = iyi and tokens = "[iyi]"
      and results = "[analyse_word iyi]"]
  from T[OF i p n] demo_adapter_iyi wf i l res
  show ?thesis by simp
qed

end
